theory Spec2Isabelle
  imports Complex_Main "HOL-Library.Sublist" "HOL-Library.Multiset"
begin

section \<open>JavaScript values used by the survey application\<close>

text \<open>
  Strings are byte lists holding the UTF-8 encoding of a JavaScript string. Every
  string operation of the sources (\<^verbatim>\<open>split(', ')\<close>, \<^verbatim>\<open>join\<close>,
  \<^verbatim>\<open>replace(/"/g, '""')\<close>, concatenation, use as a property key) works on ASCII
  patterns, so it acts on the encoding exactly as it acts on the string.

  A field of a JSON document or of an object literal is a string, \<^verbatim>\<open>null\<close> or
  missing (\<^verbatim>\<open>undefined\<close>): the Mongoose schemas of \<^verbatim>\<open>server.js\<close> declare
  every survey field as \<^verbatim>\<open>String\<close>.
\<close>

datatype jsstr = Undefined | Null | Str string

text \<open>JavaScript truthiness: \<^verbatim>\<open>undefined\<close>, \<^verbatim>\<open>null\<close> and \<^verbatim>\<open>''\<close> are falsy.\<close>

fun truthy :: "jsstr \<Rightarrow> bool" where
  "truthy Undefined = False"
| "truthy Null = False"
| "truthy (Str s) = (s \<noteq> [])"

text \<open>\<^verbatim>\<open>ToString\<close>, as applied by a template literal and by a property access.\<close>

fun to_string :: "jsstr \<Rightarrow> string" where
  "to_string Undefined = ''undefined''"
| "to_string Null = ''null''"
| "to_string (Str s) = s"

text \<open>\<^verbatim>\<open>x || d\<close> for a string default \<open>d\<close>.\<close>

definition or_default :: "jsstr \<Rightarrow> string \<Rightarrow> string" where
  "or_default x d = (if truthy x then to_string x else d)"

subsection \<open>\<^verbatim>\<open>String.prototype.split\<close> and \<^verbatim>\<open>Array.prototype.join\<close>\<close>

text \<open>
  \<^verbatim>\<open>S.split(sep)\<close> for a non-empty separator scans \<open>S\<close> from the left; at each
  position where \<open>sep\<close> matches it closes the current piece and jumps over the
  separator, and the rest of the string after the last match is the last piece.
  (With the empty separator JavaScript splits into single code units; the sources
  never do that, and the model then returns the string as one piece.)
\<close>

function split_from :: "string \<Rightarrow> string \<Rightarrow> string \<Rightarrow> string list" where
  "split_from sep piece s =
     (if s = [] then [piece]
      else if sep \<noteq> [] \<and> prefix sep s then piece # split_from sep [] (drop (length sep) s)
      else split_from sep (piece @ [hd s]) (tl s))"
  by pat_completeness auto
termination
  by (relation "measure (\<lambda>(sep, piece, s). length s)") auto

declare split_from.simps [simp del]

definition split :: "string \<Rightarrow> string \<Rightarrow> string list" where
  "split sep s = split_from sep [] s"

text \<open>\<^verbatim>\<open>xs.join(sep)\<close>: the elements with \<open>sep\<close> between neighbours; \<^verbatim>\<open>''\<close> for \<^verbatim>\<open>[]\<close>.\<close>

fun join :: "string \<Rightarrow> string list \<Rightarrow> string" where
  "join sep [] = []"
| "join sep [x] = x"
| "join sep (x # y # ys) = x @ sep @ join sep (y # ys)"

text \<open>Whether the storage separator \<^verbatim>\<open>', '\<close> occurs somewhere in a tag.\<close>

fun has_separator :: "string \<Rightarrow> bool" where
  "has_separator [] = False"
| "has_separator (c # cs) = (prefix '', '' (c # cs) \<or> has_separator cs)"

subsection \<open>Numbers\<close>

text \<open>
  A JavaScript number is an IEEE 754 binary64 value: \<^verbatim>\<open>NaN\<close>, an infinity, or a
  finite double, kept here as the rational it denotes. (The sign of zero is not kept:
  the only place where the program could see it is a product \<^verbatim>\<open>-0 * count\<close>, which
  is added to a sum that starts at \<^verbatim>\<open>+0\<close>, and \<^verbatim>\<open>+0 + -0\<close> is \<^verbatim>\<open>+0\<close>.)
\<close>

datatype jsnum = NaN | Fin rat | PosInf | NegInf

text \<open>The number of binary digits of a positive integer.\<close>

function bit_length :: "int \<Rightarrow> int" where
  "bit_length n = (if n \<le> 0 then 0 else 1 + bit_length (n div 2))"
  by pat_completeness auto
termination
  by (relation "measure nat") auto

declare bit_length.simps [simp del]

definition pow2 :: "int \<Rightarrow> rat" where
  "pow2 e = (if 0 \<le> e then 2 ^ nat e else 1 / 2 ^ nat (- e))"

text \<open>For \<open>0 < x\<close>, the exponent \<open>e\<close> with \<open>2\<^sup>e \<le> x < 2\<^sup>e\<^sup>+\<^sup>1\<close>.\<close>

definition binade :: "rat \<Rightarrow> int" where
  "binade x = (case quotient_of x of (p, q) \<Rightarrow>
     (let e = bit_length p - bit_length q
      in if pow2 e \<le> x then e else e - 1))"

definition round_half_even :: "rat \<Rightarrow> int" where
  "round_half_even x =
     (let f = \<lfloor>x\<rfloor>; d = x - of_int f
      in if d < 1 / 2 then f else if 1 / 2 < d then f + 1 else if even f then f else f + 1)"

text \<open>
  Rounding of a real result to the nearest double, ties to even: 53 significant
  bits, the spacing of the subnormal range below \<open>2\<^sup>-\<^sup>1\<^sup>0\<^sup>2\<^sup>2\<close>.
\<close>

definition fl :: "rat \<Rightarrow> rat" where
  "fl x = (if x = 0 then 0
     else let a = \<bar>x\<bar>; u = pow2 (max (binade a) (- 1022) - 52)
          in sgn x * of_int (round_half_even (a / u)) * u)"

definition to_double :: "rat \<Rightarrow> jsnum" where
  "to_double x = (let y = fl x in
     if y = 0 then Fin 0
     else if 1024 \<le> binade \<bar>y\<bar> then (if 0 < y then PosInf else NegInf)
     else Fin y)"

text \<open>\<^verbatim>\<open>a + b\<close>, \<^verbatim>\<open>a - b\<close>, \<^verbatim>\<open>a * b\<close> and \<^verbatim>\<open>a / b\<close> on numbers.\<close>

fun num_neg :: "jsnum \<Rightarrow> jsnum" where
  "num_neg NaN = NaN"
| "num_neg (Fin a) = Fin (- a)"
| "num_neg PosInf = NegInf"
| "num_neg NegInf = PosInf"

fun num_add :: "jsnum \<Rightarrow> jsnum \<Rightarrow> jsnum" where
  "num_add (Fin a) (Fin b) = to_double (a + b)"
| "num_add NaN _ = NaN"
| "num_add _ NaN = NaN"
| "num_add PosInf NegInf = NaN"
| "num_add NegInf PosInf = NaN"
| "num_add PosInf _ = PosInf"
| "num_add NegInf _ = NegInf"
| "num_add _ PosInf = PosInf"
| "num_add _ NegInf = NegInf"

definition num_sub :: "jsnum \<Rightarrow> jsnum \<Rightarrow> jsnum" where
  "num_sub a b = num_add a (num_neg b)"

fun signed_inf :: "bool \<Rightarrow> jsnum" where
  "signed_inf positive = (if positive then PosInf else NegInf)"

fun num_mul :: "jsnum \<Rightarrow> jsnum \<Rightarrow> jsnum" where
  "num_mul (Fin a) (Fin b) = to_double (a * b)"
| "num_mul NaN _ = NaN"
| "num_mul _ NaN = NaN"
| "num_mul PosInf (Fin b) = (if b = 0 then NaN else signed_inf (0 < b))"
| "num_mul NegInf (Fin b) = (if b = 0 then NaN else signed_inf (b < 0))"
| "num_mul (Fin a) PosInf = (if a = 0 then NaN else signed_inf (0 < a))"
| "num_mul (Fin a) NegInf = (if a = 0 then NaN else signed_inf (a < 0))"
| "num_mul PosInf PosInf = PosInf"
| "num_mul NegInf NegInf = PosInf"
| "num_mul PosInf NegInf = NegInf"
| "num_mul NegInf PosInf = NegInf"

text \<open>Division of a number by the length of an array.\<close>

fun num_div_length :: "jsnum \<Rightarrow> nat \<Rightarrow> jsnum" where
  "num_div_length (Fin a) n =
     (if n = 0 then (if a = 0 then NaN else signed_inf (0 < a)) else to_double (a / of_nat n))"
| "num_div_length NaN n = NaN"
| "num_div_length PosInf n = PosInf"
| "num_div_length NegInf n = NegInf"

subsection \<open>\<^verbatim>\<open>parseInt\<close> and \<^verbatim>\<open>Number.prototype.toFixed\<close>\<close>

text \<open>
  The white space that \<^verbatim>\<open>parseInt\<close> skips: TAB, LF, VT, FF, CR, SP, and in UTF-8
  U+00A0, U+1680, U+2000 to U+200A, U+2028, U+2029, U+202F, U+205F, U+3000, U+FEFF.
\<close>

definition white_space :: "string list" where
  "white_space =
     [[CHR 0x09], [CHR 0x0A], [CHR 0x0B], [CHR 0x0C], [CHR 0x0D], [CHR 0x20],
      [CHR 0xC2, CHR 0xA0], [CHR 0xE1, CHR 0x9A, CHR 0x80]] @
     map (\<lambda>b. [CHR 0xE2, CHR 0x80, b])
       [CHR 0x80, CHR 0x81, CHR 0x82, CHR 0x83, CHR 0x84, CHR 0x85, CHR 0x86, CHR 0x87,
        CHR 0x88, CHR 0x89, CHR 0x8A, CHR 0xA8, CHR 0xA9, CHR 0xAF] @
     [[CHR 0xE2, CHR 0x81, CHR 0x9F], [CHR 0xE3, CHR 0x80, CHR 0x80],
      [CHR 0xEF, CHR 0xBB, CHR 0xBF]]"

text \<open>The length of the white space character that starts \<open>s\<close>, or 0.\<close>

definition white_space_length :: "string \<Rightarrow> nat" where
  "white_space_length s =
     (case find (\<lambda>w. prefix w s) white_space of None \<Rightarrow> 0 | Some w \<Rightarrow> length w)"

function trim_start :: "string \<Rightarrow> string" where
  "trim_start s =
     (if white_space_length s = 0 then s else trim_start (drop (white_space_length s) s))"
  by pat_completeness auto
termination
proof (relation "measure length")
  fix s :: string
  assume "white_space_length s \<noteq> 0"
  moreover have "white_space_length [] = 0"
    by (simp add: white_space_length_def white_space_def)
  ultimately have "s \<noteq> []" by auto
  with \<open>white_space_length s \<noteq> 0\<close>
  show "(drop (white_space_length s) s, s) \<in> measure length" by simp
qed simp

declare trim_start.simps [simp del]

text \<open>The value of a digit or letter as a digit of a radix up to 36.\<close>

definition digit_value :: "char \<Rightarrow> int option" where
  "digit_value c =
     (let n = (of_char c :: int)
      in if 48 \<le> n \<and> n \<le> 57 then Some (n - 48)
         else if 97 \<le> n \<and> n \<le> 122 then Some (n - 87)
         else if 65 \<le> n \<and> n \<le> 90 then Some (n - 55)
         else None)"

definition is_digit :: "int \<Rightarrow> char \<Rightarrow> bool" where
  "is_digit radix c = (case digit_value c of None \<Rightarrow> False | Some d \<Rightarrow> d < radix)"

definition digits_value :: "int \<Rightarrow> string \<Rightarrow> int" where
  "digits_value radix ds = foldl (\<lambda>a c. a * radix + the (digit_value c)) 0 ds"

text \<open>
  \<^verbatim>\<open>parseInt(s)\<close> without a radix: skip leading white space, take a sign, take a
  \<^verbatim>\<open>0x\<close> or \<^verbatim>\<open>0X\<close> prefix as radix 16, read the longest run of digits, and ignore
  what follows. \<open>parsed_integer\<close> is the integer read, if there is a digit;
  \<^verbatim>\<open>parseInt\<close> returns it rounded to a double, and \<^verbatim>\<open>NaN\<close> when there is none.
\<close>

definition parsed_integer :: "string \<Rightarrow> int option" where
  "parsed_integer s =
     (let s1 = trim_start s;
          negative = (s1 \<noteq> [] \<and> hd s1 = CHR ''-'');
          s2 = (if s1 \<noteq> [] \<and> (hd s1 = CHR ''+'' \<or> hd s1 = CHR ''-'') then tl s1 else s1);
          hex = (prefix ''0x'' s2 \<or> prefix ''0X'' s2);
          radix = (if hex then 16 else 10);
          s3 = (if hex then drop 2 s2 else s2);
          z = takeWhile (is_digit radix) s3
      in if z = [] then None
         else Some ((if negative then - 1 else 1) * digits_value radix z))"

definition parseInt :: "string \<Rightarrow> jsnum" where
  "parseInt s = (case parsed_integer s of None \<Rightarrow> NaN | Some z \<Rightarrow> to_double (of_int z))"

text \<open>Decimal digits of a non-negative integer, as \<^verbatim>\<open>ToString\<close> writes it.\<close>

function decimal :: "int \<Rightarrow> string" where
  "decimal n = (if n < 10 then [char_of (48 + n)] else decimal (n div 10) @ [char_of (48 + n mod 10)])"
  by pat_completeness auto
termination
  by (relation "measure nat") auto

declare decimal.simps [simp del]

text \<open>
  A text made by \<^verbatim>\<open>toFixed\<close>. For a value of at least \<open>10\<^sup>2\<^sup>1\<close> the method returns
  the exponent notation of \<^verbatim>\<open>ToString\<close>, which is kept symbolic.
\<close>

datatype jstext = Text string | Exponential rat

text \<open>The integer \<open>n\<close> for which \<open>n / 10\<close> is closest to \<open>a\<close>, the larger one of two.\<close>

definition nearest_tenth :: "rat \<Rightarrow> int" where
  "nearest_tenth a = \<lfloor>a * 10 + 1 / 2\<rfloor>"

text \<open>
  \<^verbatim>\<open>x.toFixed(1)\<close>: the sign, then the nearest tenth of \<open>\<bar>x\<bar>\<close> written with one digit
  after the point.
\<close>

definition toFixed1 :: "jsnum \<Rightarrow> jstext" where
  "toFixed1 x =
     (case x of
        NaN \<Rightarrow> Text ''NaN''
      | PosInf \<Rightarrow> Text ''Infinity''
      | NegInf \<Rightarrow> Text ''-Infinity''
      | Fin r \<Rightarrow>
          if 10 ^ 21 \<le> \<bar>r\<bar> then Exponential r
          else let n = nearest_tenth \<bar>r\<bar>;
                   m = (if n < 10 then ''0'' @ decimal n else decimal n);
                   k = length m
               in Text ((if r < 0 then ''-'' else []) @ take (k - 1) m @ ''.'' @ drop (k - 1) m))"

subsection \<open>Plain objects used as counters\<close>

text \<open>
  The statistics are plain objects \<^verbatim>\<open>{}\<close> filled by
  \<^verbatim>\<open>stats[k] = (stats[k] || 0) + 1\<close>. A value of such an object is a count, or,
  when \<open>k\<close> names a method that \<^verbatim>\<open>{}\<close> inherits from \<^verbatim>\<open>Object.prototype\<close>,
  the text of that function followed by \<^verbatim>\<open>1\<close>s, a string that is not a numeral
  (\<open>Junk\<close>).
\<close>

datatype jsval = Count nat | Junk

text \<open>
  An object is the list of its own properties in the order in which
  \<^verbatim>\<open>Object.entries\<close> enumerates them: first the keys that are array indices, in
  ascending numeric order, then the other keys in the order of their creation.
\<close>

type_synonym obj = "(string \<times> jsval) list"

text \<open>The properties of \<^verbatim>\<open>Object.prototype\<close>: eleven methods and the accessor \<^verbatim>\<open>__proto__\<close>.\<close>

definition object_prototype_methods :: "string list" where
  "object_prototype_methods =
     [''constructor'', ''__defineGetter__'', ''__defineSetter__'', ''hasOwnProperty'',
      ''__lookupGetter__'', ''__lookupSetter__'', ''isPrototypeOf'', ''propertyIsEnumerable'',
      ''toString'', ''valueOf'', ''toLocaleString'']"

definition inherited_keys :: "string list" where
  "inherited_keys = ''__proto__'' # object_prototype_methods"

text \<open>
  An array index is the canonical decimal numeral of an integer from 0 to \<open>2\<^sup>3\<^sup>2 - 2\<close>.
\<close>

definition is_array_index :: "string \<Rightarrow> bool" where
  "is_array_index k =
     (k \<noteq> [] \<and> list_all (is_digit 10) k \<and> (k = ''0'' \<or> hd k \<noteq> CHR ''0'') \<and>
      digits_value 10 k \<le> 4294967294)"

fun insert_index :: "string \<Rightarrow> jsval \<Rightarrow> obj \<Rightarrow> obj" where
  "insert_index k v [] = [(k, v)]"
| "insert_index k v ((k', v') # ps) =
     (if is_array_index k' \<and> digits_value 10 k' < digits_value 10 k
      then (k', v') # insert_index k v ps
      else (k, v) # (k', v') # ps)"

text \<open>Creation of a new own property.\<close>

definition create_property :: "obj \<Rightarrow> string \<Rightarrow> jsval \<Rightarrow> obj" where
  "create_property ps k v = (if is_array_index k then insert_index k v ps else ps @ [(k, v)])"

text \<open>Assignment to an own property that exists: its place in the order is kept.\<close>

fun write_property :: "obj \<Rightarrow> string \<Rightarrow> jsval \<Rightarrow> obj" where
  "write_property [] k v = []"
| "write_property ((k', v') # ps) k v =
     (if k' = k then (k, v) # ps else (k', v') # write_property ps k v)"

text \<open>
  \<^verbatim>\<open>stats[k] = (stats[k] || 0) + 1\<close>.
  \<^item> An own count \<open>n\<close> becomes \<open>n + 1\<close>; an own string gets another \<^verbatim>\<open>1\<close> appended.
  \<^item> Without an own property, \<^verbatim>\<open>stats['__proto__']\<close> reads the prototype object, and
    the assignment of the string \<^verbatim>\<open>'[object Object]1'\<close> goes to the \<^verbatim>\<open>__proto__\<close>
    setter, which ignores a value that is neither an object nor \<^verbatim>\<open>null\<close>: nothing
    is stored.
  \<^item> Without an own property, an inherited method is read, is truthy, and its text
    followed by \<^verbatim>\<open>1\<close> is stored as a new own property.
  \<^item> Otherwise the read gives \<^verbatim>\<open>undefined\<close> and the new own property is \<open>0 + 1\<close>.
\<close>

definition bump :: "obj \<Rightarrow> string \<Rightarrow> obj" where
  "bump ps k =
     (case map_of ps k of
        Some (Count n) \<Rightarrow> write_property ps k (Count (n + 1))
      | Some Junk \<Rightarrow> write_property ps k Junk
      | None \<Rightarrow>
          if k = ''__proto__'' then ps
          else if k \<in> set object_prototype_methods then create_property ps k Junk
          else create_property ps k (Count 1))"

text \<open>\<^verbatim>\<open>ToNumber\<close> of a stored value.\<close>

fun to_number :: "jsval \<Rightarrow> jsnum" where
  "to_number (Count n) = Fin (of_nat n)"
| "to_number Junk = NaN"

subsection \<open>\<^verbatim>\<open>Array.prototype.sort\<close> with a comparison function\<close>

text \<open>
  \<^verbatim>\<open>sort\<close> is stable, and it reads a comparison result \<open>v\<close> as: \<open>v < 0\<close> puts the
  first argument first, \<open>v > 0\<close> the second, and \<open>0\<close> or \<^verbatim>\<open>NaN\<close> keeps their order.
  For a consistent comparison function this fixes the result, which the stable
  insertion sort below computes. (For an inconsistent one, as with \<open>Junk\<close> next to
  different counts, the language leaves the order to the implementation, and the
  insertion sort gives one of the permitted results.)
\<close>

fun not_after :: "jsnum \<Rightarrow> bool" where
  "not_after NaN = True"
| "not_after (Fin v) = (v \<le> 0)"
| "not_after PosInf = False"
| "not_after NegInf = True"

fun insert_sorted :: "('a \<Rightarrow> 'a \<Rightarrow> jsnum) \<Rightarrow> 'a \<Rightarrow> 'a list \<Rightarrow> 'a list" where
  "insert_sorted cmp x [] = [x]"
| "insert_sorted cmp x (y # ys) =
     (if not_after (cmp x y) then x # y # ys else y # insert_sorted cmp x ys)"

definition sort_by :: "('a \<Rightarrow> 'a \<Rightarrow> jsnum) \<Rightarrow> 'a list \<Rightarrow> 'a list" where
  "sort_by cmp xs = foldr (insert_sorted cmp) xs []"

section \<open>Survey submission (\<^verbatim>\<open>SurveyForm.js\<close>)\<close>

text \<open>The values of the six check boxes of the form.\<close>

definition vocabulary :: "string list" where
  "vocabulary = [''robo'', ''iluminacion'', ''vigilancia'', ''acceso'', ''emergencia'', ''otros'']"

text \<open>
  \<^verbatim>\<open>handleSubmit\<close>, line 44: \<^verbatim>\<open>problemas: formData.problemas.join(', ')\<close>.
\<close>

definition submitted_problemas :: "string list \<Rightarrow> string" where
  "submitted_problemas tags = join '', '' tags"

section \<open>The administration panel (\<^verbatim>\<open>AdminPanel.js\<close>)\<close>

subsection \<open>Stored documents and in-memory surveys\<close>

text \<open>
  A document of the collection \<^verbatim>\<open>respuestas\<close> as the server returns it: the fields
  of \<^verbatim>\<open>respuestaSchema\<close> and the \<^verbatim>\<open>_id\<close> that the store assigns.
\<close>

record item =
  item_id :: jsstr
  item_nombre :: jsstr
  item_puesto :: jsstr
  item_telefono :: jsstr
  item_seguridad :: jsstr
  item_problemas :: jsstr
  item_sugerencia :: jsstr
  item_calificacion :: jsstr
  item_fecha :: jsstr
  item_hora :: jsstr
  item_createdAt :: jsstr

text \<open>
  The object that \<^verbatim>\<open>fetchSurveys\<close> builds for each document (lines 23 to 35).
  Fields copied as they are may be missing; a field with a \<^verbatim>\<open>||\<close> default is a
  string; \<^verbatim>\<open>sugerencia\<close> is kept as a possibly missing value because
  \<^verbatim>\<open>exportResults\<close> tests it again.
\<close>

record survey =
  id' :: jsstr
  fecha :: string
  hora :: string
  nombre :: jsstr
  puesto :: string
  telefono :: string
  seguridad :: jsstr
  problemas :: "string list"
  sugerencia :: jsstr
  calificacion :: string
  synced :: bool

datatype alert_type = Success | Danger | Warning

record alert =
  type' :: alert_type
  message :: string

text \<open>The three \<^verbatim>\<open>useState\<close> cells of the component.\<close>

record panel =
  surveys :: "survey list"
  alert :: "alert option"
  loading :: bool

subsection \<open>\<^verbatim>\<open>fetchSurveys\<close>\<close>

text \<open>
  Line 31: \<^verbatim>\<open>problemas: item.problemas ? item.problemas.split(', ') : []\<close>.
\<close>

definition fetched_problemas :: "jsstr \<Rightarrow> string list" where
  "fetched_problemas p = (if truthy p then split '', '' (to_string p) else [])"

text \<open>
  The mapping of one document. The renderings
  \<^verbatim>\<open>new Date(item.createdAt).toLocaleDateString('es-ES')\<close> and
  \<^verbatim>\<open>...toLocaleTimeString('es-ES')\<close> depend on the browser; they are the parameters
  \<open>localeDate\<close> and \<open>localeTime\<close>.
\<close>

definition fetched_survey :: "(jsstr \<Rightarrow> string) \<Rightarrow> (jsstr \<Rightarrow> string) \<Rightarrow> item \<Rightarrow> survey" where
  "fetched_survey localeDate localeTime item =
     \<lparr> id' = item_id item,
       fecha = (if truthy (item_fecha item) then to_string (item_fecha item)
                else localeDate (item_createdAt item)),
       hora = (if truthy (item_hora item) then to_string (item_hora item)
               else localeTime (item_createdAt item)),
       nombre = item_nombre item,
       puesto = or_default (item_puesto item) ''No especificado'',
       telefono = or_default (item_telefono item) ''No proporcionado'',
       seguridad = item_seguridad item,
       problemas = fetched_problemas (item_problemas item),
       sugerencia = Str (or_default (item_sugerencia item) ''Ninguna sugerencia''),
       calificacion = or_default (item_calificacion item) ''3'',
       synced = True \<rparr>"

text \<open>
  \<^verbatim>\<open>fetchSurveys\<close>. The argument \<open>result\<close> is the outcome of
  \<^verbatim>\<open>await axios.get(...)\<close>: \<open>Inl m\<close> when the promise is rejected with an error of
  message \<open>m\<close>, \<open>Inr data\<close> when it resolves with the array \<^verbatim>\<open>response.data\<close>.
\<close>

definition fetchSurveys ::
  "(jsstr \<Rightarrow> string) \<Rightarrow> (jsstr \<Rightarrow> string) \<Rightarrow> string + item list \<Rightarrow> panel \<Rightarrow> panel" where
  "fetchSurveys localeDate localeTime result p =
     (let p1 = p\<lparr>loading := True, alert := None\<rparr>;
          p2 = (case result of
                  Inr data \<Rightarrow>
                    (let fetchedSurveys = map (fetched_survey localeDate localeTime) data
                     in p1\<lparr>surveys := fetchedSurveys,
                           alert := Some \<lparr> type' = Success,
                             message = [CHR 0xE2, CHR 0x9C, CHR 0x85] @
                               '' Datos del servidor cargados correctamente. <br/><small>'' @
                               decimal (int (length fetchedSurveys)) @
                               '' encuestas encontradas.</small>'' \<rparr>\<rparr>)
                | Inl error_message \<Rightarrow>
                    p1\<lparr>alert := Some \<lparr> type' = Danger,
                          message = [CHR 0xE2, CHR 0x9D, CHR 0x8C] @
                            '' Error al cargar datos del servidor. <br/><small>'' @
                            error_message @ ''</small>'' \<rparr>\<rparr>)
      in p2\<lparr>loading := False\<rparr>)"

subsection \<open>\<^verbatim>\<open>exportResults\<close>\<close>

definition csv_header :: string where
  "csv_header = ''ID,Fecha,Hora,Nombre,Puesto,Tel'' @ [CHR 0xC3, CHR 0xA9] @
     ''fono,Seguridad,Calificaci'' @ [CHR 0xC3, CHR 0xB3] @
     ''n,Problemas,Sugerencias'' @ [CHR 0x0A]"

text \<open>\<^verbatim>\<open>s.replace(/"/g, '""')\<close>: every double quote (byte \<open>0x22\<close>) is written twice.\<close>

definition replace_quotes :: "string \<Rightarrow> string" where
  "replace_quotes s = concat (map (\<lambda>c. if c = CHR 0x22 then [CHR 0x22, CHR 0x22] else [c]) s)"

text \<open>Lines 57 to 59: the two local constants and the template literal of one row.\<close>

definition csv_problemas :: "survey \<Rightarrow> string" where
  "csv_problemas e = (if length (problemas e) > 0 then join ''; '' (problemas e) else ''Ninguno'')"

definition csv_sugerencia :: "survey \<Rightarrow> string" where
  "csv_sugerencia e = replace_quotes (or_default (sugerencia e) ''Ninguna'')"

definition csv_row :: "survey \<Rightarrow> string" where
  "csv_row e =
     [CHR 0x22] @ to_string (id' e) @ [CHR 0x22] @ '','' @
     [CHR 0x22] @ fecha e @ [CHR 0x22] @ '','' @
     [CHR 0x22] @ hora e @ [CHR 0x22] @ '','' @
     [CHR 0x22] @ to_string (nombre e) @ [CHR 0x22] @ '','' @
     [CHR 0x22] @ puesto e @ [CHR 0x22] @ '','' @
     [CHR 0x22] @ telefono e @ [CHR 0x22] @ '','' @
     [CHR 0x22] @ to_string (seguridad e) @ [CHR 0x22] @ '','' @
     [CHR 0x22] @ calificacion e @ [CHR 0x22] @ '','' @
     [CHR 0x22] @ csv_problemas e @ [CHR 0x22] @ '','' @
     [CHR 0x22] @ csv_sugerencia e @ [CHR 0x22] @ [CHR 0x0A]"

definition csv :: "survey list \<Rightarrow> string" where
  "csv svs = foldl (\<lambda>text e. text @ csv_row e) csv_header svs"

record download =
  filename :: string
  content :: string

text \<open>
  \<^verbatim>\<open>exportResults\<close> returns at once when there is nothing to export; otherwise it
  sets a timer whose callback sees the surveys of this rendering. The second
  component of the result is that list when a timer was set.
\<close>

definition exportResults :: "panel \<Rightarrow> panel \<times> survey list option" where
  "exportResults p =
     (if length (surveys p) = 0
      then (p\<lparr>alert := Some \<lparr> type' = Warning,
               message = [CHR 0xE2, CHR 0x9D, CHR 0x8C] @ '' No hay datos para exportar.'' \<rparr>\<rparr>,
            None)
      else (p\<lparr>alert := Some \<lparr> type' = Warning,
               message = [CHR 0xF0, CHR 0x9F, CHR 0x92, CHR 0xBE] @
                 '' Preparando archivo de exportaci'' @ [CHR 0xC3, CHR 0xB3] @ ''n...'' \<rparr>\<rparr>,
            Some (surveys p)))"

text \<open>
  The timer callback. \<open>now\<close> is \<^verbatim>\<open>new Date().toISOString()\<close>; the file offered for
  download is named after its part before \<^verbatim>\<open>T\<close>.
\<close>

definition export_callback :: "string \<Rightarrow> survey list \<Rightarrow> panel \<Rightarrow> panel \<times> download" where
  "export_callback now svs p =
     (p\<lparr>alert := Some \<lparr> type' = Success,
         message = [CHR 0xF0, CHR 0x9F, CHR 0x92, CHR 0xBE] @ '' '' @ [CHR 0xC2, CHR 0xA1] @
           ''Archivo exportado correctamente! <br/><small>'' @ decimal (int (length svs)) @
           '' encuestas exportadas en formato CSV.</small>'' \<rparr>\<rparr>,
      \<lparr> filename = ''encuestas-seguridad-mercado-'' @ hd (split ''T'' now) @ ''.csv'',
        content = csv svs \<rparr>)"

text \<open>Every file that one click on the export button produces, timer included.\<close>

definition exported_files :: "string \<Rightarrow> panel \<Rightarrow> download list" where
  "exported_files now p =
     (case exportResults p of
        (p', None) \<Rightarrow> []
      | (p', Some svs) \<Rightarrow> [snd (export_callback now svs p')])"

subsection \<open>\<^verbatim>\<open>clearResults\<close>\<close>

text \<open>
  \<open>confirmed\<close> is the answer of \<^verbatim>\<open>window.confirm\<close>. Of the two calls of
  \<^verbatim>\<open>setAlert\<close> in the same handler the second one decides the alert that is shown.
\<close>

definition clearResults :: "bool \<Rightarrow> panel \<Rightarrow> panel" where
  "clearResults confirmed p =
     (if confirmed
      then p\<lparr>surveys := [],
             alert := Some \<lparr> type' = Success,
               message = [CHR 0xE2, CHR 0x9C, CHR 0x85] @
                 '' Todas las encuestas han sido eliminadas localmente. (En un proyecto real, esto tambi'' @
                 [CHR 0xC3, CHR 0xA9] @ ''n las borrar'' @ [CHR 0xC3, CHR 0xAD] @
                 ''a del servidor).'' \<rparr>\<rparr>
      else p)"

subsection \<open>Statistics (lines 88 to 105 and 205)\<close>

text \<open>
  One pass of \<^verbatim>\<open>surveys.forEach\<close> over the three counters \<^verbatim>\<open>seguridadStats\<close>,
  \<^verbatim>\<open>calificacionStats\<close> and \<^verbatim>\<open>problemasStats\<close>. The key \<^verbatim>\<open>e.seguridad\<close> is
  converted to a string by the property access. \<^verbatim>\<open>e.problemas\<close> is always an array,
  so the test of line 96 holds.
\<close>

definition stats_step :: "obj \<times> obj \<times> obj \<Rightarrow> survey \<Rightarrow> obj \<times> obj \<times> obj" where
  "stats_step acc e =
     (case acc of (seguridad_stats, calificacion_stats, problemas_stats) \<Rightarrow>
        (bump seguridad_stats (to_string (seguridad e)),
         bump calificacion_stats (calificacion e),
         foldl bump problemas_stats (problemas e)))"

definition statistics :: "survey list \<Rightarrow> obj \<times> obj \<times> obj" where
  "statistics svs = foldl stats_step ([], [], []) svs"

definition seguridadStats :: "survey list \<Rightarrow> obj" where
  "seguridadStats svs = fst (statistics svs)"

definition calificacionStats :: "survey list \<Rightarrow> obj" where
  "calificacionStats svs = fst (snd (statistics svs))"

definition problemasStats :: "survey list \<Rightarrow> obj" where
  "problemasStats svs = snd (snd (statistics svs))"

text \<open>
  Lines 103 and 104:
  \<^verbatim>\<open>Object.entries(calificacionStats).reduce((sum, [cal, count]) => sum + (parseInt(cal) * count), 0)\<close>.
\<close>

definition totalCalificaciones :: "survey list \<Rightarrow> jsnum" where
  "totalCalificaciones svs =
     foldl (\<lambda>sum (cal, count). num_add sum (num_mul (parseInt cal) (to_number count)))
       (Fin 0) (calificacionStats svs)"

text \<open>
  Line 105: the text made by \<^verbatim>\<open>toFixed(1)\<close>, or the number \<^verbatim>\<open>0\<close> when there is
  no survey.
\<close>

datatype average = Number jsnum | Formatted jstext

definition promedioCalificacion :: "survey list \<Rightarrow> average" where
  "promedioCalificacion svs =
     (if length svs > 0
      then Formatted (toFixed1 (num_div_length (totalCalificaciones svs) (length svs)))
      else Number (Fin 0))"

text \<open>
  Line 205:
  \<^verbatim>\<open>Object.entries(problemasStats).sort((a, b) => b[1] - a[1]).slice(0, 5)\<close>.
\<close>

definition by_count_descending :: "string \<times> jsval \<Rightarrow> string \<times> jsval \<Rightarrow> jsnum" where
  "by_count_descending a b = num_sub (to_number (snd b)) (to_number (snd a))"

definition topIssues :: "survey list \<Rightarrow> (string \<times> jsval) list" where
  "topIssues svs = take 5 (sort_by by_count_descending (problemasStats svs))"

section \<open>The server (\<^verbatim>\<open>server.js\<close>)\<close>

text \<open>
  The functions that lines 45 to 101 pass to \<^verbatim>\<open>app.get\<close> and \<^verbatim>\<open>app.post\<close> are
  modelled first, as functions of the store and of the request. Whether the process
  ever registers them is the matter of the last subsection, which runs the top-level
  statements of the file in their order.
\<close>

subsection \<open>The handlers\<close>

record user =
  usuario :: string
  email :: string
  password :: string
  fechaRegistro :: string

text \<open>
  The two collections. \<open>fault\<close> is \<open>Some m\<close> when the store cannot be reached: every
  query then throws an error of message \<open>m\<close>.
\<close>

record database =
  respuestas :: "item list"
  users :: "user list"
  fault :: "string option"

definition Respuesta_find :: "database \<Rightarrow> string + item list" where
  "Respuesta_find db = (case fault db of Some m \<Rightarrow> Inl m | None \<Rightarrow> Inr (respuestas db))"

definition User_findOne :: "database \<Rightarrow> string \<Rightarrow> string + user option" where
  "User_findOne db name =
     (case fault db of Some m \<Rightarrow> Inl m | None \<Rightarrow> Inr (find (\<lambda>u. usuario u = name) (users db)))"

datatype json =
    Respuestas "item list"
  | Mensaje string
  | Login_exitoso string string string
  | Error string
  | Error_details string string

record response =
  status :: nat
  body :: json

text \<open>The function passed to \<^verbatim>\<open>app.get('/api/respuestas', ...)\<close>, lines 57 to 65.\<close>

definition get_respuestas :: "database \<Rightarrow> response" where
  "get_respuestas db =
     (case Respuesta_find db of
        Inr found \<Rightarrow> \<lparr> status = 200, body = Respuestas found \<rparr>
      | Inl err \<Rightarrow> \<lparr> status = 500, body = Error_details ''Error al obtener respuestas'' err \<rparr>)"

text \<open>
  The function passed to \<^verbatim>\<open>app.post('/api/login', ...)\<close>, lines 68 to 80. The
  comparison \<^verbatim>\<open>user.password !== password\<close> is strict: a password that is missing
  from the request differs from every stored one.
\<close>

record login_request =
  req_usuario :: string
  req_password :: jsstr

definition post_login :: "database \<Rightarrow> login_request \<Rightarrow> response" where
  "post_login db req =
     (case User_findOne db (req_usuario req) of
        Inr found \<Rightarrow>
          (case found of
             None \<Rightarrow> \<lparr> status = 401, body = Mensaje ''Credenciales incorrectas'' \<rparr>
           | Some u \<Rightarrow>
               if Str (password u) \<noteq> req_password req
               then \<lparr> status = 401, body = Mensaje ''Credenciales incorrectas'' \<rparr>
               else \<lparr> status = 200, body = Login_exitoso ''Login exitoso'' (usuario u) (email u) \<rparr>)
      | Inl err \<Rightarrow> \<lparr> status = 500, body = Error ''Error en el servidor'' \<rparr>)"

subsection \<open>Loading the module\<close>

text \<open>
  The top-level statements of \<^verbatim>\<open>server.js\<close>. A statement that declares a constant
  other than \<^verbatim>\<open>app\<close>, or that only calls a library, is \<open>Other\<close> with its line.
\<close>

datatype statement =
    Other nat
  | Declare_app
  | Use string
  | Route string string
  | Listen

text \<open>
  The binding \<^verbatim>\<open>app\<close> of the module: \<open>None\<close> from the start of the module to the
  statement \<^verbatim>\<open>const app = express()\<close>, then the routes registered so far.
\<close>

record process =
  app :: "(string \<times> string) list option"
  listening :: bool

text \<open>
  One statement. A \<^verbatim>\<open>const\<close> binding that is read before its declaration has been
  evaluated throws a \<^verbatim>\<open>ReferenceError\<close>; \<open>Inl\<close> carries the name of the binding.
\<close>

fun run_statement :: "statement \<Rightarrow> process \<Rightarrow> string + process" where
  "run_statement (Other line) p = Inr p"
| "run_statement Declare_app p = Inr (p\<lparr>app := Some []\<rparr>)"
| "run_statement (Use middleware) p =
     (case app p of None \<Rightarrow> Inl ''app'' | Some routes \<Rightarrow> Inr p)"
| "run_statement (Route method path) p =
     (case app p of
        None \<Rightarrow> Inl ''app''
      | Some routes \<Rightarrow> Inr (p\<lparr>app := Some (routes @ [(method, path)])\<rparr>))"
| "run_statement Listen p =
     (case app p of None \<Rightarrow> Inl ''app'' | Some routes \<Rightarrow> Inr (p\<lparr>listening := True\<rparr>))"

text \<open>The statements in their order; the first error ends the module.\<close>

fun run_module :: "statement list \<Rightarrow> process \<Rightarrow> string + process" where
  "run_module [] p = Inr p"
| "run_module (st # sts) p =
     (case run_statement st p of Inl err \<Rightarrow> Inl err | Inr p' \<Rightarrow> run_module sts p')"

text \<open>
  \<^verbatim>\<open>server.js\<close>: the three \<^verbatim>\<open>require\<close>s of lines 1 to 3, \<^verbatim>\<open>app.use(cors({...}))\<close> of
  line 4, \<^verbatim>\<open>dotenv\<close> of line 7, \<^verbatim>\<open>const app = express()\<close> of line 9, the two
  \<^verbatim>\<open>app.use\<close> of lines 10 and 11, \<^verbatim>\<open>mongoose.connect\<close> of line 14, the schemas and
  models of lines 21 to 42, the four routes, the port of line 104 and
  \<^verbatim>\<open>app.listen\<close> of line 105.
\<close>

definition server_js :: "statement list" where
  "server_js =
     [Other 1, Other 2, Other 3,
      Use ''cors({origin})'',
      Other 7,
      Declare_app,
      Use ''cors()'', Use ''express.json()'',
      Other 14, Other 21, Other 33, Other 36, Other 42,
      Route ''POST'' ''/api/respuestas'',
      Route ''GET'' ''/api/respuestas'',
      Route ''POST'' ''/api/login'',
      Route ''POST'' ''/api/register'',
      Other 104,
      Listen]"

definition start :: "statement list \<Rightarrow> string + process" where
  "start js = run_module js \<lparr> app = None, listening = False \<rparr>"

text \<open>
  The answer of a process started from the statements \<open>js\<close> to \<^verbatim>\<open>POST /api/login\<close>: the answer
  of the handler when the module has loaded, listens and has registered the route,
  and none otherwise.
\<close>

definition login_endpoint :: "statement list \<Rightarrow> database \<Rightarrow> login_request \<Rightarrow> response option" where
  "login_endpoint js db req =
     (case start js of
        Inl err \<Rightarrow> None
      | Inr p \<Rightarrow>
          (case app p of
             None \<Rightarrow> None
           | Some routes \<Rightarrow>
               if listening p \<and> (''POST'', ''/api/login'') \<in> set routes
               then Some (post_login db req) else None))"

section \<open>The panel and the server together\<close>

text \<open>
  The panel in front of a backend that runs the handler \<open>get_respuestas\<close> on a store.
\<close>

datatype request = GET string | POST string | DELETE string

definition SERVER_URL :: string where
  "SERVER_URL = ''https://tu-backend.onrender.com/api''"

record world =
  server :: database
  admin :: panel
  sent :: "request list"

text \<open>
  \<^verbatim>\<open>axios.get\<close>: the promise is rejected when there is no response (\<open>network = Some m\<close>)
  and when the status is not a 2xx one; a body that is not an array makes
  \<^verbatim>\<open>response.data.map\<close> throw inside the same \<^verbatim>\<open>try\<close>.
\<close>

definition axios_get :: "string option \<Rightarrow> response \<Rightarrow> string + item list" where
  "axios_get network r =
     (case network of
        Some m \<Rightarrow> Inl m
      | None \<Rightarrow>
          if 200 \<le> status r \<and> status r < 300
          then (case body r of
                  Respuestas data \<Rightarrow> Inr data
                | _ \<Rightarrow> Inl ''response.data.map is not a function'')
          else Inl (''Request failed with status code '' @ decimal (int (status r))))"

definition fetch_world ::
  "(jsstr \<Rightarrow> string) \<Rightarrow> (jsstr \<Rightarrow> string) \<Rightarrow> string option \<Rightarrow> world \<Rightarrow> world" where
  "fetch_world localeDate localeTime network w =
     w\<lparr>admin := fetchSurveys localeDate localeTime
                  (axios_get network (get_respuestas (server w))) (admin w),
       sent := sent w @ [GET (SERVER_URL @ ''/respuestas'')]\<rparr>"

text \<open>A click on the clear button: \<^verbatim>\<open>clearResults\<close> calls no function of \<^verbatim>\<open>axios\<close>.\<close>

definition clear_world :: "bool \<Rightarrow> world \<Rightarrow> world" where
  "clear_world confirmed w = w\<lparr>admin := clearResults confirmed (admin w)\<rparr>"

section \<open>Notions used in the statements\<close>

subsection \<open>Reading a counter object\<close>

fun count_of :: "jsval \<Rightarrow> nat" where
  "count_of (Count n) = n"
| "count_of Junk = 0"

text \<open>Every value of the object is a number.\<close>

definition all_counts :: "obj \<Rightarrow> bool" where
  "all_counts ps = list_all (\<lambda>p. snd p \<noteq> Junk) ps"

text \<open>The sum of the values of an object, when they are all numbers.\<close>

definition sum_of_counts :: "obj \<Rightarrow> nat option" where
  "sum_of_counts ps =
     (if all_counts ps then Some (sum_list (map (\<lambda>p. count_of (snd p)) ps)) else None)"

text \<open>The sum of \<open>f key * count\<close> over the properties, used in the proofs.\<close>

definition weighted_sum :: "(string \<Rightarrow> int) \<Rightarrow> obj \<Rightarrow> int" where
  "weighted_sum f ps = sum_list (map (\<lambda>p. f (fst p) * int (count_of (snd p))) ps)"

text \<open>The key under which \<^verbatim>\<open>sort\<close> with \<open>by_count_descending\<close> orders entries of counts.\<close>

definition count_key :: "string \<times> jsval \<Rightarrow> int" where
  "count_key e = - int (count_of (snd e))"

text \<open>One step of the \<^verbatim>\<open>reduce\<close> of \<open>totalCalificaciones\<close>.\<close>

definition total_step :: "jsnum \<Rightarrow> string \<times> jsval \<Rightarrow> jsnum" where
  "total_step acc p = num_add acc (num_mul (parseInt (fst p)) (to_number (snd p)))"

subsection \<open>Stored documents seen through \<^verbatim>\<open>fetchSurveys\<close>\<close>

text \<open>The rating text of a fetched document: line 33, \<^verbatim>\<open>item.calificacion || '3'\<close>.\<close>

definition fetched_rating :: "item \<Rightarrow> string" where
  "fetched_rating i = or_default (item_calificacion i) ''3''"

text \<open>The integer that \<^verbatim>\<open>parseInt\<close> reads in a rating text, 0 when it reads none.\<close>

definition rating_value :: "string \<Rightarrow> int" where
  "rating_value s = (case parsed_integer s of Some z \<Rightarrow> z | None \<Rightarrow> 0)"

text \<open>All issue tokens of all fetched documents, in the order of the documents.\<close>

definition fetched_tokens :: "item list \<Rightarrow> string list" where
  "fetched_tokens items = concat (map (\<lambda>i. fetched_problemas (item_problemas i)) items)"

text \<open>The elements of a list in the order of their first occurrence.\<close>

fun first_seen :: "'a list \<Rightarrow> 'a list" where
  "first_seen [] = []"
| "first_seen (x # xs) = x # removeAll x (first_seen xs)"

text \<open>A document without any field, and a stand-in for the locale renderings.\<close>

definition blank_item :: item where
  "blank_item = \<lparr> item_id = Undefined, item_nombre = Undefined, item_puesto = Undefined,
     item_telefono = Undefined, item_seguridad = Undefined, item_problemas = Undefined,
     item_sugerencia = Undefined, item_calificacion = Undefined, item_fecha = Undefined,
     item_hora = Undefined, item_createdAt = Undefined \<rparr>"

definition no_locale :: "jsstr \<Rightarrow> string" where
  "no_locale d = to_string d"

subsection \<open>The statistics as the specification words them\<close>

text \<open>
  Average rating: the sum over all records of the rating parsed as an integer, an
  unparsable or missing rating counting 0, divided by the number of records and
  rounded to one decimal; 0 for no record.
\<close>

definition spec_rating :: "item \<Rightarrow> int" where
  "spec_rating i = (case item_calificacion i of Str s \<Rightarrow> rating_value s | _ \<Rightarrow> 0)"

definition spec_averageRating :: "item list \<Rightarrow> average" where
  "spec_averageRating items =
     (if items = [] then Number (Fin 0)
      else Formatted (toFixed1 (to_double
             (of_int (sum_list (map spec_rating items)) / of_nat (length items)))))"

text \<open>
  Issue counts: the tags of a record are the pieces of its stored string split on
  \<^verbatim>\<open>', '\<close> without the empty ones, and a tag is mapped to the number of records
  that contain it.
\<close>

definition spec_tags :: "item \<Rightarrow> string list" where
  "spec_tags i =
     (case item_problemas i of Str s \<Rightarrow> filter (\<lambda>t. t \<noteq> []) (split '', '' s) | _ \<Rightarrow> [])"

definition spec_issueCounts :: "item list \<Rightarrow> string \<Rightarrow> nat option" where
  "spec_issueCounts items t =
     (let n = length (filter (\<lambda>i. t \<in> set (spec_tags i)) items)
      in if n = 0 then None else Some n)"

text \<open>
  Top issues: the entries of the issue counts in the order in which the tags were
  first met, sorted by descending count with a stable sort, cut to five.
\<close>

definition encounter_entries :: "string list \<Rightarrow> (string \<times> jsval) list" where
  "encounter_entries tokens = map (\<lambda>t. (t, Count (count_list tokens t))) (first_seen tokens)"

definition spec_topIssues :: "string list \<Rightarrow> (string \<times> jsval) list" where
  "spec_topIssues tokens = take 5 (sort_key count_key (encounter_entries tokens))"

subsection \<open>The exported file\<close>




subsection \<open>Sample data\<close>

text \<open>
  A survey fetched from a document whose suggestion is \<^verbatim>\<open>He said "hi"\<close>, and a world
  with one stored document, one administrator and that survey in memory.
\<close>

definition sample_survey :: survey where
  "sample_survey = fetched_survey no_locale no_locale
     (blank_item\<lparr>item_id := Str ''65f0'',
        item_sugerencia := Str (''He said '' @ [CHR 0x22] @ ''hi'' @ [CHR 0x22])\<rparr>)"

definition sample_world :: world where
  "sample_world =
     \<lparr> server = \<lparr> respuestas = [blank_item\<lparr>item_id := Str ''65f0'', item_calificacion := Str ''4''\<rparr>],
                  users = [\<lparr> usuario = ''admin'', email = ''admin@mercado.bo'',
                             password = ''secreto'', fechaRegistro = ''1/1/2025'' \<rparr>],
                  fault = None \<rparr>,
       admin = \<lparr> surveys = [sample_survey], alert = None, loading = False \<rparr>,
       sent = [] \<rparr>"

section \<open>Properties of splitting and joining\<close>

lemma split_from_Nil: "split_from sep piece [] = [piece]"
  by (simp add: split_from.simps)

lemma split_from_match:
  "sep \<noteq> [] \<Longrightarrow> split_from sep piece (sep @ rest) = piece # split_from sep [] rest"
  by (subst split_from.simps) simp

lemma split_from_skip:
  "\<not> prefix sep (c # cs) \<Longrightarrow> split_from sep piece (c # cs) = split_from sep (piece @ [c]) cs"
  by (subst split_from.simps) simp

text \<open>
  A separator cannot begin on the last character of a tag: the character after it
  is the comma of the separator that follows, not a blank.
\<close>

lemma no_match_across:
  assumes "\<not> prefix '', '' (c # t)"
  shows "\<not> prefix '', '' (c # t @ '', '' @ rest)"
  using assms by (cases t) auto

lemma split_from_tag:
  "\<not> has_separator t \<Longrightarrow>
   split_from '', '' piece (t @ '', '' @ rest) = (piece @ t) # split_from '', '' [] rest"
proof (induction t arbitrary: piece)
  case Nil
  show ?case using split_from_match [of "'', ''" piece rest] by simp
next
  case (Cons c t)
  from Cons.prems have no_here: "\<not> prefix '', '' (c # t)" and no_later: "\<not> has_separator t"
    by simp_all
  from no_match_across [OF no_here]
  have "split_from '', '' piece (c # t @ '', '' @ rest)
      = split_from '', '' (piece @ [c]) (t @ '', '' @ rest)"
    by (rule split_from_skip)
  with Cons.IH [OF no_later, of "piece @ [c]"] show ?case by simp
qed

lemma split_from_last:
  "\<not> has_separator t \<Longrightarrow> split_from '', '' piece t = [piece @ t]"
proof (induction t arbitrary: piece)
  case Nil
  show ?case by (simp add: split_from_Nil)
next
  case (Cons c t)
  from Cons.prems have no_here: "\<not> prefix '', '' (c # t)" and no_later: "\<not> has_separator t"
    by simp_all
  from no_here have "split_from '', '' piece (c # t) = split_from '', '' (piece @ [c]) t"
    by (rule split_from_skip)
  with Cons.IH [OF no_later, of "piece @ [c]"] show ?case by simp
qed

lemma split_join:
  "tags \<noteq> [] \<Longrightarrow> \<forall>t \<in> set tags. \<not> has_separator t \<Longrightarrow>
   split '', '' (join '', '' tags) = tags"
proof (induction tags rule: induct_list012)
  case 1
  then show ?case by simp
next
  case (2 x)
  then show ?case using split_from_last [of x "[]"] by (simp add: split_def)
next
  case (3 x y ys)
  then have rest: "split_from '', '' [] (join '', '' (y # ys)) = y # ys"
    by (simp add: split_def)
  from 3 have "\<not> has_separator x" by simp
  from split_from_tag [OF this, of "[]" "join '', '' (y # ys)"] rest
  show ?case by (simp add: split_def)
qed

lemma join_eq_Nil: "sep \<noteq> [] \<Longrightarrow> join sep tags = [] \<longleftrightarrow> tags = [] \<or> tags = [[]]"
  by (induction tags rule: induct_list012) auto

lemma vocabulary_tags:
  "t \<in> set vocabulary \<Longrightarrow> t \<noteq> [] \<and> \<not> has_separator t"
  by (auto simp: vocabulary_def)

text \<open>
  C4. A sequence of tags of the form's vocabulary, joined with \<^verbatim>\<open>', '\<close> by
  \<^verbatim>\<open>handleSubmit\<close> and split again by \<^verbatim>\<open>fetchSurveys\<close>, comes back unchanged and
  in the same order; the empty selection comes back as the empty list.
\<close>

theorem C4_join_split_roundtrip:
  "set tags \<subseteq> set vocabulary \<Longrightarrow>
   fetched_problemas (Str (submitted_problemas tags)) = tags"
proof (cases "tags = []")
  case True
  then show ?thesis by (simp add: fetched_problemas_def submitted_problemas_def)
next
  case False
  assume voc: "set tags \<subseteq> set vocabulary"
  then have ok: "\<forall>t \<in> set tags. t \<noteq> [] \<and> \<not> has_separator t"
    using vocabulary_tags by blast
  with False have "tags \<noteq> [[]]" by auto
  with False have "join '', '' tags \<noteq> []" by (simp add: join_eq_Nil)
  moreover from False ok have "split '', '' (join '', '' tags) = tags"
    by (simp add: split_join)
  ultimately show ?thesis by (simp add: fetched_problemas_def submitted_problemas_def)
qed

theorem C4_join_split_roundtrip_witness:
  "set [''robo'', ''otros''] \<subseteq> set vocabulary \<and>
   fetched_problemas (Str (submitted_problemas [''robo'', ''otros''])) = [''robo'', ''otros'']"
proof -
  have h: "set [''robo'', ''otros''] \<subseteq> set vocabulary" by (simp add: vocabulary_def)
  from h C4_join_split_roundtrip [OF h] show ?thesis by simp
qed

section \<open>Doubles: integers are represented exactly\<close>

lemma bit_length_bounds:
  "0 < n \<Longrightarrow> 1 \<le> bit_length n \<and> 2 ^ nat (bit_length n - 1) \<le> n \<and> n < 2 ^ nat (bit_length n)"
proof (induction n rule: bit_length.induct)
  case (1 n)
  show ?case
  proof (cases "n = 1")
    case True
    have "bit_length 1 = 1"
      by (simp add: bit_length.simps [of 1] bit_length.simps [of 0])
    with True show ?thesis by simp
  next
    case False
    with "1.prems" have half: "0 < n div 2" by simp
    from "1.IH" [OF _ half] "1.prems"
    have ih: "1 \<le> bit_length (n div 2)"
      "2 ^ nat (bit_length (n div 2) - 1) \<le> n div 2"
      "n div 2 < 2 ^ nat (bit_length (n div 2))"
      by simp_all
    from "1.prems" have eq: "bit_length n = 1 + bit_length (n div 2)"
      by (subst bit_length.simps) simp
    from ih(1) have nat_eq: "nat (bit_length n - 1) = Suc (nat (bit_length (n div 2) - 1))"
      "nat (bit_length n) = Suc (nat (bit_length (n div 2)))"
      unfolding eq by simp_all
    from ih(2) have "2 * 2 ^ nat (bit_length (n div 2) - 1) \<le> n" by simp
    moreover from ih(3) have "n < 2 * 2 ^ nat (bit_length (n div 2))" by simp
    ultimately show ?thesis using ih(1) nat_eq eq by simp
  qed
qed

lemma bit_length_one: "bit_length 1 = 1"
  by (simp add: bit_length.simps [of 1] bit_length.simps [of 0])

lemma binade_of_int:
  assumes "0 < k"
  shows "binade (of_int k) = bit_length k - 1"
proof -
  from bit_length_bounds [OF assms]
  have b: "1 \<le> bit_length k" "2 ^ nat (bit_length k - 1) \<le> k" by simp_all
  from b(2) have "(of_int (2 ^ nat (bit_length k - 1)) :: rat) \<le> of_int k"
    by (simp only: of_int_le_iff)
  then have "pow2 (bit_length k - 1) \<le> of_int k"
    using b(1) by (simp add: pow2_def)
  then show ?thesis
    by (simp add: binade_def bit_length_one Let_def)
qed

lemma round_half_even_of_int: "round_half_even (of_int m) = m"
  by (simp add: round_half_even_def)

lemma pow2_nonneg: "0 \<le> e \<Longrightarrow> pow2 e = 2 ^ nat e"
  by (simp add: pow2_def)

lemma pow2_neg: "e \<le> 0 \<Longrightarrow> pow2 e = 1 / 2 ^ nat (- e)"
  by (cases "e = 0") (simp_all add: pow2_def)

lemma fl_of_nat_exact:
  assumes pos: "0 < k" and bound: "k \<le> 2 ^ 53"
  shows "0 \<le> binade (of_int k) \<and> binade (of_int k) \<le> 53 \<and>
    of_int (round_half_even (of_int k / pow2 (binade (of_int k) - 52))) * pow2 (binade (of_int k) - 52)
      = (of_int k :: rat)"
proof -
  define e where "e = binade (of_int k)"
  from bit_length_bounds [OF pos] binade_of_int [OF pos]
  have e0: "0 \<le> e" and low: "2 ^ nat e \<le> k" by (simp_all add: e_def)
  have e53: "e \<le> 53"
  proof (rule ccontr)
    assume "\<not> e \<le> 53"
    then have "54 \<le> nat e" by simp
    then have "(2::int) ^ 54 \<le> 2 ^ nat e" by (rule power_increasing) simp
    with low bound show False by simp
  qed
  have "of_int (round_half_even (of_int k / pow2 (e - 52))) * pow2 (e - 52) = (of_int k :: rat)"
  proof (cases "e \<le> 52")
    case True
    then have u: "pow2 (e - 52) = 1 / 2 ^ nat (52 - e)"
      using pow2_neg [of "e - 52"] by simp
    have "(of_int k :: rat) / pow2 (e - 52) = of_int (k * 2 ^ nat (52 - e))"
      by (simp add: u)
    then have "round_half_even (of_int k / pow2 (e - 52)) = k * 2 ^ nat (52 - e)"
      by (simp only: round_half_even_of_int)
    then show ?thesis by (simp add: u)
  next
    case False
    with e53 have e: "e = 53" by simp
    with low bound have k: "k = 2 ^ 53" by simp
    have u: "pow2 (e - 52) = 2" by (simp add: e pow2_def)
    have "(of_int k :: rat) / 2 = of_int (2 ^ 52)" by (simp add: k)
    then have "round_half_even (of_int k / 2) = 2 ^ 52"
      by (simp only: round_half_even_of_int)
    then show ?thesis by (simp add: u k)
  qed
  with e0 e53 show ?thesis by (simp add: e_def)
qed

lemma fl_of_int:
  assumes "\<bar>k\<bar> \<le> 2 ^ 53"
  shows "fl (of_int k) = of_int k"
proof (cases "k = 0")
  case True
  then show ?thesis by (simp add: fl_def)
next
  case False
  then have pos: "0 < \<bar>k\<bar>" by simp
  define a :: rat where "a = of_int \<bar>k\<bar>"
  have abs_eq: "\<bar>of_int k :: rat\<bar> = a" by (simp add: a_def)
  from fl_of_nat_exact [OF pos assms]
  have e: "0 \<le> binade a"
    and r: "of_int (round_half_even (a / pow2 (binade a - 52))) * pow2 (binade a - 52) = a"
    unfolding a_def by blast+
  from e have m: "max (binade a) (- 1022) = binade a" by simp
  from False have nz: "(of_int k :: rat) \<noteq> 0" by simp
  have "fl (of_int k) = sgn (of_int k) * (of_int (round_half_even (a / pow2 (binade a - 52))) * pow2 (binade a - 52))"
    unfolding fl_def abs_eq Let_def m using nz by (simp only: if_False mult.assoc)
  also have "\<dots> = sgn (of_int k) * \<bar>of_int k :: rat\<bar>" by (simp only: r abs_eq)
  also have "\<dots> = (of_int k :: rat)" by (simp only: sgn_mult_abs)
  finally show ?thesis .
qed

lemma to_double_of_int:
  assumes "\<bar>k\<bar> \<le> 2 ^ 53"
  shows "to_double (of_int k) = Fin (of_int k)"
proof (cases "k = 0")
  case True
  then show ?thesis by (simp add: to_double_def fl_def)
next
  case False
  then have pos: "0 < \<bar>k\<bar>" by simp
  define a :: rat where "a = of_int \<bar>k\<bar>"
  have abs_eq: "\<bar>of_int k :: rat\<bar> = a" by (simp add: a_def)
  from fl_of_nat_exact [OF pos assms] have "\<not> 1024 \<le> binade a"
    unfolding a_def by simp
  moreover from False have "(of_int k :: rat) \<noteq> 0" by simp
  ultimately show ?thesis
    unfolding to_double_def fl_of_int [OF assms] Let_def abs_eq by simp
qed

lemma pow2_powi: "pow2 e = 2 powi e"
  by (simp add: pow2_def power_int_def field_simps)

lemma pow2_pos: "0 < pow2 e"
  by (simp add: pow2_powi)

lemma pow2_mono: "a \<le> b \<Longrightarrow> pow2 a \<le> pow2 b"
  by (simp add: pow2_powi power_int_increasing)

lemma round_half_even_ge_floor: "\<lfloor>x\<rfloor> \<le> round_half_even x"
  by (simp add: round_half_even_def Let_def)

subsection \<open>Accuracy of the two roundings\<close>

text \<open>
  \<open>binade\<close> is the binary exponent, \<open>fl\<close> is within half a unit in the last place of
  its argument, and the tenth that \<^verbatim>\<open>toFixed(1)\<close> writes is within \<open>1/20\<close> of the
  double it is applied to.
\<close>

lemma binade_lower:
  assumes "0 < x"
  shows "pow2 (binade x) \<le> x"
proof -
  obtain p q where pq: "quotient_of x = (p, q)" by (cases "quotient_of x")
  then have q: "0 < q" and x: "x = of_int p / of_int q"
    by (simp_all add: quotient_of_denom_pos quotient_of_div)
  from assms x q have p: "0 < p" by (simp add: zero_less_divide_iff)
  define e where "e = bit_length p - bit_length q"
  show ?thesis
  proof (cases "pow2 e \<le> x")
    case True
    then show ?thesis by (simp add: binade_def pq e_def Let_def)
  next
    case False
    from bit_length_bounds [OF p] have bp: "1 \<le> bit_length p" "2 ^ nat (bit_length p - 1) \<le> p"
      by simp_all
    from bit_length_bounds [OF q] have bq: "1 \<le> bit_length q" "q < 2 ^ nat (bit_length q)"
      by simp_all
    have num: "(2::rat) ^ nat (bit_length p - 1) \<le> of_int p"
      using bp(2) by (metis of_int_le_iff of_int_numeral of_int_power)
    have den: "(of_int q :: rat) \<le> 2 ^ nat (bit_length q)"
      using bq(2) by (metis less_imp_le of_int_le_iff of_int_numeral of_int_power)
    have "pow2 (e - 1) = 2 powi (bit_length p - 1 - bit_length q)"
      by (simp add: pow2_powi e_def algebra_simps)
    also have "\<dots> = 2 powi (bit_length p - 1) / 2 powi (bit_length q)"
      by (simp add: power_int_diff)
    also have "\<dots> = 2 ^ nat (bit_length p - 1) / 2 ^ nat (bit_length q)"
      using bp(1) bq(1) by (simp add: power_int_def)
    also have "\<dots> \<le> of_int p / of_int q"
      using num den q p by (intro frac_le) simp_all
    finally have "pow2 (e - 1) \<le> x" by (simp add: x)
    with False show ?thesis by (simp add: binade_def pq e_def Let_def)
  qed
qed

lemma round_half_even_close: "\<bar>of_int (round_half_even y) - y\<bar> \<le> 1 / 2"
proof -
  have "of_int \<lfloor>y\<rfloor> \<le> y" "y < of_int \<lfloor>y\<rfloor> + 1" by linarith+
  then show ?thesis by (auto simp: round_half_even_def Let_def abs_le_iff)
qed

lemma fl_error:
  assumes "x \<noteq> 0"
  shows "\<bar>fl x - x\<bar> \<le> pow2 (max (binade \<bar>x\<bar>) (- 1022) - 52) / 2"
proof -
  define u where "u = pow2 (max (binade \<bar>x\<bar>) (- 1022) - 52)"
  define m where "m = round_half_even (\<bar>x\<bar> / u)"
  have u: "0 < u" by (simp add: u_def pow2_pos)
  have "fl x = sgn x * of_int m * u"
    using assms by (simp add: fl_def Let_def u_def m_def)
  moreover have "x = sgn x * \<bar>x\<bar>" by (simp add: sgn_mult_abs)
  ultimately have "fl x - x = sgn x * of_int m * u - sgn x * \<bar>x\<bar>" by simp
  then have "fl x - x = sgn x * (of_int m * u - \<bar>x\<bar>)" by (simp add: algebra_simps)
  then have "\<bar>fl x - x\<bar> = \<bar>of_int m * u - \<bar>x\<bar>\<bar>"
    using assms by (simp add: abs_mult abs_sgn_eq)
  also have "of_int m * u - \<bar>x\<bar> = (of_int m - \<bar>x\<bar> / u) * u"
    using u by (simp add: algebra_simps)
  also have "\<bar>\<dots>\<bar> = \<bar>of_int m - \<bar>x\<bar> / u\<bar> * u"
    using u by (simp add: abs_mult)
  also have "\<dots> \<le> 1 / 2 * u"
    using round_half_even_close [of "\<bar>x\<bar> / u"] u
    unfolding m_def by (intro mult_right_mono) simp_all
  finally show ?thesis by (simp add: u_def)
qed

lemma fl_relative_error:
  assumes "x \<noteq> 0" and "- 1022 \<le> binade \<bar>x\<bar>"
  shows "\<bar>fl x - x\<bar> \<le> \<bar>x\<bar> / 2 ^ 53"
proof -
  from assms(2) have "max (binade \<bar>x\<bar>) (- 1022) = binade \<bar>x\<bar>" by simp
  with fl_error [OF assms(1)] have "\<bar>fl x - x\<bar> \<le> pow2 (binade \<bar>x\<bar> - 52) / 2" by simp
  also have "pow2 (binade \<bar>x\<bar> - 52) / 2 = pow2 (binade \<bar>x\<bar>) / 2 ^ 53"
    by (simp add: pow2_powi power_int_diff)
  also have "\<dots> \<le> \<bar>x\<bar> / 2 ^ 53"
    using binade_lower [of "\<bar>x\<bar>"] assms(1) by (simp add: divide_right_mono)
  finally show ?thesis .
qed


lemma binade_upper:
  assumes "0 < x"
  shows "x < pow2 (binade x + 1)"
proof -
  obtain p q where pq: "quotient_of x = (p, q)" by (cases "quotient_of x")
  then have q: "0 < q" and x: "x = of_int p / of_int q"
    by (simp_all add: quotient_of_denom_pos quotient_of_div)
  from assms x q have p: "0 < p" by (simp add: zero_less_divide_iff)
  define e where "e = bit_length p - bit_length q"
  show ?thesis
  proof (cases "pow2 e \<le> x")
    case False
    then show ?thesis by (simp add: binade_def pq e_def Let_def)
  next
    case True
    from bit_length_bounds [OF p] have bp: "1 \<le> bit_length p" "p < 2 ^ nat (bit_length p)"
      by simp_all
    from bit_length_bounds [OF q] have bq: "1 \<le> bit_length q" "2 ^ nat (bit_length q - 1) \<le> q"
      by simp_all
    have num: "(of_int p :: rat) < 2 ^ nat (bit_length p)"
      using bp(2) by (metis of_int_less_iff of_int_numeral of_int_power)
    have den: "(2::rat) ^ nat (bit_length q - 1) \<le> of_int q"
      using bq(2) by (metis of_int_le_iff of_int_numeral of_int_power)
    have "of_int p / of_int q < (2::rat) ^ nat (bit_length p) / 2 ^ nat (bit_length q - 1)"
      using num den p by (intro frac_less) simp_all
    also have "\<dots> = 2 powi (bit_length p) / 2 powi (bit_length q - 1)"
      using bp(1) bq(1) by (simp add: power_int_def)
    also have "\<dots> = 2 powi (bit_length p - (bit_length q - 1))"
      by (simp add: power_int_diff)
    also have "\<dots> = pow2 (e + 1)"
      by (simp add: pow2_powi e_def algebra_simps)
    finally have "x < pow2 (e + 1)" by (simp add: x)
    with True show ?thesis by (simp add: binade_def pq e_def Let_def)
  qed
qed

lemma nearest_tenth_close: "\<bar>of_int (nearest_tenth a) / 10 - a\<bar> \<le> 1 / 20"
proof -
  define n where "n = nearest_tenth a"
  have "of_int n \<le> a * 10 + 1 / 2" "a * 10 + 1 / 2 < of_int n + 1"
    unfolding n_def nearest_tenth_def by linarith+
  then have "- (1 / 20) \<le> of_int n / 10 - a" "of_int n / 10 - a \<le> 1 / 20"
    by linarith+
  then have "\<bar>of_int n / 10 - a\<bar> \<le> 1 / 20" by (intro abs_leI) linarith+
  then show ?thesis by (simp only: n_def)
qed

lemma shown_average_close:
  assumes "q \<noteq> 0" and "- 1022 \<le> binade \<bar>q\<bar>"
  shows "\<bar>of_int (nearest_tenth \<bar>fl q\<bar>) / 10 - \<bar>q\<bar>\<bar> \<le> 1 / 20 + \<bar>q\<bar> / 2 ^ 53"
proof -
  have "\<bar>\<bar>fl q\<bar> - \<bar>q\<bar>\<bar> \<le> \<bar>fl q - q\<bar>" by (rule abs_triangle_ineq3)
  with fl_relative_error [OF assms] have "\<bar>\<bar>fl q\<bar> - \<bar>q\<bar>\<bar> \<le> \<bar>q\<bar> / 2 ^ 53" by simp
  with nearest_tenth_close [of "\<bar>fl q\<bar>"] show ?thesis by linarith
qed

subsection \<open>Some values\<close>

text \<open>
  The double nearest to \<open>43/20\<close> lies below it and the one nearest to \<open>47/20\<close> above
  it, so \<^verbatim>\<open>(43 / 20).toFixed(1)\<close> is \<^verbatim>\<open>2.1\<close> and \<^verbatim>\<open>(47 / 20).toFixed(1)\<close> is \<^verbatim>\<open>2.4\<close>.
\<close>

lemma number_examples:
  "parseInt ''5'' = Fin 5"
  "parseInt ''  -0x1A'' = Fin (- 26)"
  "parseInt ''4.7 estrellas'' = Fin 4"
  "parseInt ''cinco'' = NaN"
  "parseInt [] = NaN"
  "toFixed1 (Fin 4) = Text ''4.0''"
  "toFixed1 (Fin (1 / 4)) = Text ''0.3''"
  "toFixed1 (Fin (- 1 / 25)) = Text ''-0.0''"
  "toFixed1 (num_div_length (Fin 43) 20) = Text ''2.1''"
  "toFixed1 (num_div_length (Fin 47) 20) = Text ''2.4''"
  by code_simp+

section \<open>Counter objects\<close>

lemma keys_write_property: "map fst (write_property ps k v) = map fst ps"
  by (induction ps) auto

lemma write_property_absent: "k \<notin> fst ` set ps \<Longrightarrow> write_property ps k v = ps"
  by (induction ps) auto

lemma map_of_write_property_same:
  "k \<in> fst ` set ps \<Longrightarrow> map_of (write_property ps k v) k = Some v"
  by (induction ps) force+

lemma map_of_write_property_other:
  "k' \<noteq> k \<Longrightarrow> map_of (write_property ps k v) k' = map_of ps k'"
  by (induction ps) auto

lemma weighted_sum_write_property:
  "map_of ps k = Some (Count n) \<Longrightarrow>
   weighted_sum f (write_property ps k (Count (Suc n))) = weighted_sum f ps + f k"
  by (induction ps) (auto simp: weighted_sum_def algebra_simps)

lemma all_counts_write_property:
  "all_counts ps \<Longrightarrow> v \<noteq> Junk \<Longrightarrow> all_counts (write_property ps k v)"
  by (induction ps) (auto simp: all_counts_def)

lemma mset_insert_index: "mset (insert_index k v ps) = add_mset (k, v) (mset ps)"
  by (induction ps) auto

lemma mset_create_property: "mset (create_property ps k v) = add_mset (k, v) (mset ps)"
  by (simp add: create_property_def mset_insert_index)

lemma set_create_property: "set (create_property ps k v) = insert (k, v) (set ps)"
  using mset_create_property [of ps k v] by (metis set_mset_add_mset_insert set_mset_mset)

lemma map_of_insert_index:
  "k \<notin> fst ` set ps \<Longrightarrow>
   map_of (insert_index k v ps) k' = (if k' = k then Some v else map_of ps k')"
  by (induction ps) auto

lemma map_of_create_property:
  assumes "k \<notin> fst ` set ps"
  shows "map_of (create_property ps k v) k' = (if k' = k then Some v else map_of ps k')"
proof (cases "is_array_index k")
  case True
  with assms show ?thesis by (simp add: create_property_def map_of_insert_index)
next
  case False
  from assms have "map_of ps k = None" by (simp add: map_of_eq_None_iff)
  with False show ?thesis
    by (simp add: create_property_def map_add_def split: option.split)
qed

lemma weighted_sum_mset:
  "weighted_sum f ps = sum_mset (image_mset (\<lambda>p. f (fst p) * int (count_of (snd p))) (mset ps))"
  by (simp add: weighted_sum_def sum_mset_sum_list [symmetric])

lemma weighted_sum_create_property:
  "weighted_sum f (create_property ps k v) = weighted_sum f ps + f k * int (count_of v)"
  by (simp add: weighted_sum_mset mset_create_property)

lemma all_counts_create_property:
  "all_counts ps \<Longrightarrow> v \<noteq> Junk \<Longrightarrow> all_counts (create_property ps k v)"
  by (simp add: all_counts_def list_all_iff set_create_property)

lemma all_counts_lookup:
  "all_counts ps \<Longrightarrow> map_of ps k \<noteq> Some Junk"
  by (auto simp: all_counts_def list_all_iff dest!: map_of_SomeD)

lemma inherited_keys_iff:
  "k \<in> set inherited_keys \<longleftrightarrow> k = ''__proto__'' \<or> k \<in> set object_prototype_methods"
  by (simp add: inherited_keys_def)

lemma bump_counts:
  assumes "all_counts ps" and "k \<notin> set inherited_keys"
  shows "all_counts (bump ps k)" and "weighted_sum f (bump ps k) = weighted_sum f ps + f k"
proof -
  from assms(2) have k: "k \<noteq> ''__proto__''" "k \<notin> set object_prototype_methods"
    by (simp_all add: inherited_keys_iff)
  show "all_counts (bump ps k)"
  proof (cases "map_of ps k")
    case None
    with k assms(1) show ?thesis by (simp add: bump_def all_counts_create_property)
  next
    case (Some v)
    with all_counts_lookup [OF assms(1), of k] obtain n where "v = Count n" by (cases v) auto
    with Some assms(1) show ?thesis by (simp add: bump_def all_counts_write_property)
  qed
  show "weighted_sum f (bump ps k) = weighted_sum f ps + f k"
  proof (cases "map_of ps k")
    case None
    with k show ?thesis by (simp add: bump_def weighted_sum_create_property)
  next
    case (Some v)
    with all_counts_lookup [OF assms(1), of k] obtain n where "v = Count n" by (cases v) auto
    with Some show ?thesis by (simp add: bump_def weighted_sum_write_property)
  qed
qed

lemma foldl_bump_counts:
  assumes "all_counts ps" and "\<forall>k \<in> set ks. k \<notin> set inherited_keys"
  shows "all_counts (foldl bump ps ks) \<and>
         weighted_sum f (foldl bump ps ks) = weighted_sum f ps + sum_list (map f ks)"
  using assms
proof (induction ks arbitrary: ps)
  case Nil
  then show ?case by simp
next
  case (Cons k ks)
  from Cons.prems have k: "k \<notin> set inherited_keys" and ks: "\<forall>k \<in> set ks. k \<notin> set inherited_keys"
    by simp_all
  from bump_counts(1) [OF Cons.prems(1) k] bump_counts(2) [OF Cons.prems(1) k, of f]
    Cons.IH [OF _ ks, of "bump ps k"]
  show ?case by simp
qed

section \<open>The three counters of the panel\<close>

lemma foldl_stats_step:
  "foldl stats_step (a, b, c) svs =
     (foldl bump a (map (\<lambda>e. to_string (seguridad e)) svs),
      foldl bump b (map calificacion svs),
      foldl bump c (concat (map problemas svs)))"
  by (induction svs arbitrary: a b c) (simp_all add: stats_step_def)

lemma seguridadStats_eq:
  "seguridadStats svs = foldl bump [] (map (\<lambda>e. to_string (seguridad e)) svs)"
  by (simp add: seguridadStats_def statistics_def foldl_stats_step)

lemma calificacionStats_eq: "calificacionStats svs = foldl bump [] (map calificacion svs)"
  by (simp add: calificacionStats_def statistics_def foldl_stats_step)

lemma problemasStats_eq: "problemasStats svs = foldl bump [] (concat (map problemas svs))"
  by (simp add: problemasStats_def statistics_def foldl_stats_step)

lemma weighted_sum_one: "weighted_sum (\<lambda>k. 1) ps = int (sum_list (map (\<lambda>p. count_of (snd p)) ps))"
  by (induction ps) (simp_all add: weighted_sum_def)

lemma sum_of_counts_foldl_bump:
  assumes "\<forall>k \<in> set ks. k \<notin> set inherited_keys"
  shows "sum_of_counts (foldl bump [] ks) = Some (length ks)"
proof -
  have "all_counts []" by (simp add: all_counts_def)
  from foldl_bump_counts [OF this assms, of "\<lambda>k. 1"]
  have c: "all_counts (foldl bump [] ks)"
    and "weighted_sum (\<lambda>k. 1) (foldl bump [] ks) = int (length ks)"
    by (simp_all add: weighted_sum_def sum_list_triv)
  then have "sum_list (map (\<lambda>p. count_of (snd p)) (foldl bump [] ks)) = length ks"
    by (simp add: weighted_sum_one)
  with c show ?thesis by (simp add: sum_of_counts_def)
qed

text \<open>
  C10 (amended). For every list of surveys in which no \<^verbatim>\<open>seguridad\<close> key and no
  \<^verbatim>\<open>calificacion\<close> is the name of a property that \<^verbatim>\<open>{}\<close> inherits from
  \<^verbatim>\<open>Object.prototype\<close>, all values of \<^verbatim>\<open>seguridadStats\<close> and of
  \<^verbatim>\<open>calificacionStats\<close> are numbers and each of the two sums equals the number of
  surveys. A missing \<^verbatim>\<open>seguridad\<close> is counted under the key \<^verbatim>\<open>undefined\<close>.
\<close>

theorem C10_counts_total:
  assumes "\<forall>e \<in> set svs. to_string (seguridad e) \<notin> set inherited_keys \<and>
                          calificacion e \<notin> set inherited_keys"
  shows "sum_of_counts (seguridadStats svs) = Some (length svs) \<and>
         sum_of_counts (calificacionStats svs) = Some (length svs)"
proof -
  from assms have "\<forall>k \<in> set (map (\<lambda>e. to_string (seguridad e)) svs). k \<notin> set inherited_keys"
    and "\<forall>k \<in> set (map calificacion svs). k \<notin> set inherited_keys"
    by simp_all
  then show ?thesis
    using sum_of_counts_foldl_bump [of "map (\<lambda>e. to_string (seguridad e)) svs"]
      sum_of_counts_foldl_bump [of "map calificacion svs"]
    by (simp add: seguridadStats_eq calificacionStats_eq)
qed

text \<open>Two fetched records, one of them without any field.\<close>

theorem C10_counts_total_witness:
  "list_all (\<lambda>e. to_string (seguridad e) \<notin> set inherited_keys \<and>
                  calificacion e \<notin> set inherited_keys)
     (map (fetched_survey no_locale no_locale)
        [blank_item\<lparr>item_seguridad := Str ''no'', item_calificacion := Str ''4''\<rparr>, blank_item]) \<and>
   sum_of_counts (seguridadStats (map (fetched_survey no_locale no_locale)
        [blank_item\<lparr>item_seguridad := Str ''no'', item_calificacion := Str ''4''\<rparr>, blank_item]))
     = Some 2 \<and>
   sum_of_counts (calificacionStats (map (fetched_survey no_locale no_locale)
        [blank_item\<lparr>item_seguridad := Str ''no'', item_calificacion := Str ''4''\<rparr>, blank_item]))
     = Some 2"
proof -
  let ?svs = "map (fetched_survey no_locale no_locale)
        [blank_item\<lparr>item_seguridad := Str ''no'', item_calificacion := Str ''4''\<rparr>, blank_item]"
  have h: "\<forall>e \<in> set ?svs. to_string (seguridad e) \<notin> set inherited_keys \<and>
                          calificacion e \<notin> set inherited_keys"
    by (simp add: fetched_survey_def blank_item_def or_default_def inherited_keys_def
        object_prototype_methods_def)
  from h C10_counts_total [OF h] show ?thesis unfolding list_all_iff by simp
qed

text \<open>
  One stored record whose \<^verbatim>\<open>seguridad\<close> is the string \<^verbatim>\<open>__proto__\<close>: the assignment
  \<^verbatim>\<open>seguridadStats['__proto__'] = '[object Object]1'\<close> stores nothing, the counter
  stays empty, and its counts sum to 0 for one record.
\<close>

theorem C10_counterexample:
  "sum_of_counts (seguridadStats
      [fetched_survey no_locale no_locale (blank_item\<lparr>item_seguridad := Str ''__proto__''\<rparr>)])
     = Some 0 \<and>
   length [fetched_survey no_locale no_locale (blank_item\<lparr>item_seguridad := Str ''__proto__''\<rparr>)] = 1"
  by (simp add: seguridadStats_eq fetched_survey_def blank_item_def bump_def sum_of_counts_def
      all_counts_def)

section \<open>Lookup and order of the keys of a counter\<close>

lemma map_of_bump:
  assumes "all_counts ps" and "k \<notin> set inherited_keys"
  shows "map_of (bump ps k) t =
     (if t = k then Some (Count (case map_of ps k of Some (Count n) \<Rightarrow> n + 1 | _ \<Rightarrow> 1))
      else map_of ps t)"
proof -
  from assms(2) have k: "k \<noteq> ''__proto__''" "k \<notin> set object_prototype_methods"
    by (simp_all add: inherited_keys_iff)
  show ?thesis
  proof (cases "map_of ps k")
    case None
    then have "k \<notin> fst ` set ps" by (simp add: map_of_eq_None_iff)
    with None k show ?thesis by (simp add: bump_def map_of_create_property)
  next
    case (Some v)
    with all_counts_lookup [OF assms(1), of k] obtain n where v: "v = Count n" by (cases v) auto
    from Some have "k \<in> fst ` set ps" by (metis map_of_eq_None_iff option.distinct(1))
    with Some v show ?thesis
      by (simp add: bump_def map_of_write_property_same map_of_write_property_other)
  qed
qed

lemma keys_bump:
  assumes "all_counts ps" and "k \<notin> set inherited_keys" and "\<not> is_array_index k"
  shows "map fst (bump ps k) = (if k \<in> fst ` set ps then map fst ps else map fst ps @ [k])"
proof -
  from assms(2) have k: "k \<noteq> ''__proto__''" "k \<notin> set object_prototype_methods"
    by (simp_all add: inherited_keys_iff)
  show ?thesis
  proof (cases "map_of ps k")
    case None
    then have "k \<notin> fst ` set ps" by (simp add: map_of_eq_None_iff)
    with None k assms(3) show ?thesis by (simp add: bump_def create_property_def)
  next
    case (Some v)
    with all_counts_lookup [OF assms(1), of k] obtain n where v: "v = Count n" by (cases v) auto
    from Some have "k \<in> fst ` set ps" by (metis map_of_eq_None_iff option.distinct(1))
    with Some v show ?thesis by (simp add: bump_def keys_write_property)
  qed
qed

lemma all_counts_foldl_bump:
  "\<forall>k \<in> set ks. k \<notin> set inherited_keys \<Longrightarrow> all_counts (foldl bump [] ks)"
  using foldl_bump_counts [of "[]" ks] by (simp add: all_counts_def)

lemma map_of_foldl_bump:
  assumes "\<forall>k \<in> set ks. k \<notin> set inherited_keys"
  shows "map_of (foldl bump [] ks) t =
     (if t \<in> set ks then Some (Count (count_list ks t)) else None)"
  using assms
proof (induction ks rule: rev_induct)
  case Nil
  show ?case by simp
next
  case (snoc k ks)
  then have ks: "\<forall>k \<in> set ks. k \<notin> set inherited_keys" and k: "k \<notin> set inherited_keys"
    by simp_all
  note ih = snoc.IH [OF ks]
  have "map_of (foldl bump [] (ks @ [k])) t = map_of (bump (foldl bump [] ks) k) t" by simp
  also have "\<dots> = (if t = k
       then Some (Count (case map_of (foldl bump [] ks) k of Some (Count n) \<Rightarrow> n + 1 | _ \<Rightarrow> 1))
       else map_of (foldl bump [] ks) t)"
    by (rule map_of_bump [OF all_counts_foldl_bump [OF ks] k])
  also have "\<dots> = (if t \<in> set (ks @ [k]) then Some (Count (count_list (ks @ [k]) t)) else None)"
  proof (cases "t = k")
    case True
    have "map_of (foldl bump [] ks) k = (if k \<in> set ks then Some (Count (count_list ks k)) else None)"
      using ih True by simp
    then show ?thesis using True by simp
  next
    case False
    with ih show ?thesis by simp
  qed
  finally show ?case .
qed

lemma set_first_seen: "set (first_seen xs) = set xs"
  by (induction xs) auto

lemma distinct_first_seen: "distinct (first_seen xs)"
  by (induction xs) (auto simp: distinct_removeAll)

lemma first_seen_snoc:
  "first_seen (xs @ [k]) = (if k \<in> set xs then first_seen xs else first_seen xs @ [k])"
  by (induction xs) (auto simp: set_first_seen)

lemma keys_foldl_bump:
  assumes "\<forall>k \<in> set ks. k \<notin> set inherited_keys \<and> \<not> is_array_index k"
  shows "map fst (foldl bump [] ks) = first_seen ks"
  using assms
proof (induction ks rule: rev_induct)
  case Nil
  show ?case by simp
next
  case (snoc k ks)
  then have ks: "\<forall>k \<in> set ks. k \<notin> set inherited_keys \<and> \<not> is_array_index k"
    and k: "k \<notin> set inherited_keys" "\<not> is_array_index k"
    by simp_all
  from ks have ks': "\<forall>k \<in> set ks. k \<notin> set inherited_keys" by simp
  have keys: "fst ` set (foldl bump [] ks) = set ks"
    using snoc.IH [OF ks] set_first_seen [of ks] by (metis set_map)
  have "map fst (foldl bump [] (ks @ [k])) = map fst (bump (foldl bump [] ks) k)" by simp
  also have "\<dots> = (if k \<in> fst ` set (foldl bump [] ks) then map fst (foldl bump [] ks)
                     else map fst (foldl bump [] ks) @ [k])"
    by (rule keys_bump [OF all_counts_foldl_bump [OF ks'] k])
  also have "\<dots> = first_seen (ks @ [k])"
    by (simp add: keys snoc.IH [OF ks] first_seen_snoc)
  finally show ?case .
qed

lemma entries_from_keys:
  "distinct (map fst ps) \<Longrightarrow> map (\<lambda>k. (k, the (map_of ps k))) (map fst ps) = ps"
proof (induction ps)
  case Nil
  show ?case by simp
next
  case (Cons p ps)
  obtain a b where p: "p = (a, b)" by (cases p)
  from Cons.prems p have a: "a \<notin> set (map fst ps)" and d: "distinct (map fst ps)" by simp_all
  have "map (\<lambda>k. (k, the (map_of ((a, b) # ps) k))) (map fst ps)
      = map (\<lambda>k. (k, the (map_of ps k))) (map fst ps)"
  proof (rule map_cong [OF refl])
    fix k assume "k \<in> set (map fst ps)"
    with a have "k \<noteq> a" by auto
    then show "(k, the (map_of ((a, b) # ps) k)) = (k, the (map_of ps k))" by simp
  qed
  with Cons.IH [OF d] show ?case by (simp add: p)
qed

section \<open>Sorting entries by descending count\<close>

lemma fl_sign_int:
  assumes "0 < k"
  shows "0 < fl (of_int k)" and "fl (of_int (- k)) < 0"
proof -
  define a :: rat where "a = of_int k"
  define u where "u = pow2 (max (binade a) (- 1022) - 52)"
  define m where "m = round_half_even (a / u)"
  from assms have a_pos: "0 < a" by (simp add: a_def)
  from bit_length_bounds [OF assms] binade_of_int [OF assms]
  have e0: "0 \<le> binade a" and low: "2 ^ nat (binade a) \<le> k" by (simp_all add: a_def)
  from low have "(of_int (2 ^ nat (binade a)) :: rat) \<le> of_int k" by (simp only: of_int_le_iff)
  then have "pow2 (binade a) \<le> a" using e0 by (simp add: pow2_def a_def)
  moreover from e0 have "u \<le> pow2 (binade a)" unfolding u_def by (intro pow2_mono) simp
  ultimately have "u \<le> a" by simp
  moreover have u_pos: "0 < u" by (simp add: u_def pow2_pos)
  ultimately have "1 \<le> a / u" by (simp add: pos_le_divide_eq)
  then have "1 \<le> \<lfloor>a / u\<rfloor>" by simp
  with round_half_even_ge_floor [of "a / u"] have m_pos: "0 < m" unfolding m_def by linarith
  have "fl a = sgn a * of_int m * u"
    using a_pos by (simp add: fl_def Let_def u_def m_def)
  with a_pos m_pos u_pos show "0 < fl (of_int k)" by (simp add: a_def)
  have "fl (- a) = sgn (- a) * of_int m * u"
    using a_pos by (simp add: fl_def Let_def u_def m_def)
  with a_pos m_pos u_pos show "fl (of_int (- k)) < 0"
    by (simp add: a_def mult_pos_pos)
qed

lemma not_after_to_double_int: "not_after (to_double (of_int k)) \<longleftrightarrow> k \<le> 0"
proof -
  consider "k = 0" | "0 < k" | "0 < - k" by linarith
  then show ?thesis
  proof cases
    case 1
    then show ?thesis by (simp add: to_double_def fl_def)
  next
    case 2
    from fl_sign_int(1) [OF 2] 2 show ?thesis by (auto simp: to_double_def Let_def)
  next
    case 3
    from fl_sign_int(2) [OF 3] 3 show ?thesis by (auto simp: to_double_def Let_def)
  qed
qed

lemma not_after_by_count:
  assumes "snd a \<noteq> Junk" and "snd b \<noteq> Junk"
  shows "not_after (by_count_descending a b) \<longleftrightarrow> count_key a \<le> count_key b"
proof -
  from assms obtain m n where ab: "snd a = Count m" "snd b = Count n"
    by (cases "snd a"; cases "snd b") auto
  have "by_count_descending a b = to_double (of_int (int n - int m))"
    by (simp add: by_count_descending_def num_sub_def ab)
  with not_after_to_double_int [of "int n - int m"]
  show ?thesis by (simp add: count_key_def ab)
qed

lemma insert_sorted_by_count:
  assumes "snd x \<noteq> Junk" and "all_counts ys"
  shows "insert_sorted by_count_descending x ys = insort_key count_key x ys"
  using assms(2)
  by (induction ys) (simp_all add: all_counts_def not_after_by_count [OF assms(1)])

lemma sort_by_count:
  "all_counts xs \<Longrightarrow> sort_by by_count_descending xs = sort_key count_key xs"
proof (induction xs)
  case Nil
  show ?case by (simp add: sort_by_def)
next
  case (Cons x xs)
  then have x: "snd x \<noteq> Junk" and xs: "all_counts xs" by (simp_all add: all_counts_def)
  from xs have "all_counts (sort_key count_key xs)"
    by (simp add: all_counts_def list_all_iff)
  with Cons.IH [OF xs] insert_sorted_by_count [OF x, of "sort_key count_key xs"]
  show ?case by (simp add: sort_by_def sort_key_def)
qed

section \<open>Issue counts and top issues\<close>

lemma problemas_fetched:
  "concat (map problemas (map (fetched_survey ld lt) items)) = fetched_tokens items"
  by (simp add: fetched_tokens_def fetched_survey_def comp_def)

lemma count_list_concat:
  "count_list (concat xss) t = sum_list (map (\<lambda>xs. count_list xs t) xss)"
  by (induction xss) simp_all

lemma count_list_distinct: "distinct xs \<Longrightarrow> count_list xs t = (if t \<in> set xs then 1 else 0)"
  by (induction xs) auto

lemma sum_list_indicator:
  "sum_list (map (\<lambda>x. if P x then 1 else 0) xs) = length (filter P xs)"
  by (induction xs) simp_all

lemma count_list_records:
  "\<forall>xs \<in> set xss. distinct xs \<Longrightarrow>
   count_list (concat xss) t = length (filter (\<lambda>xs. t \<in> set xs) xss)"
  by (induction xss) (simp_all add: count_list_distinct)

text \<open>
  C2 (amended). The tokens of a record are the pieces of its stored string split on
  \<^verbatim>\<open>', '\<close>, empty pieces included; an empty or missing string has no token. If no
  token names a property inherited from \<^verbatim>\<open>Object.prototype\<close>, then
  \<^verbatim>\<open>problemasStats\<close> maps every token to the number of its occurrences in all
  records and has no other key, the sum of its values is the number of tokens, that is
  of (record, token) pairs, and when no record repeats a token the count of a token is
  the number of records that contain it.
\<close>

theorem C2_issueCounts:
  assumes "\<forall>t \<in> set (fetched_tokens items). t \<notin> set inherited_keys"
  shows "map_of (problemasStats (map (fetched_survey ld lt) items)) t =
           (if t \<in> set (fetched_tokens items)
            then Some (Count (count_list (fetched_tokens items) t)) else None) \<and>
         sum_of_counts (problemasStats (map (fetched_survey ld lt) items)) =
           Some (length (fetched_tokens items)) \<and>
         ((\<forall>i \<in> set items. distinct (fetched_problemas (item_problemas i))) \<longrightarrow>
            count_list (fetched_tokens items) t =
              length (filter (\<lambda>i. t \<in> set (fetched_problemas (item_problemas i))) items))"
proof -
  have stats: "problemasStats (map (fetched_survey ld lt) items) = foldl bump [] (fetched_tokens items)"
    by (simp only: problemasStats_eq problemas_fetched)
  have "(\<forall>i \<in> set items. distinct (fetched_problemas (item_problemas i))) \<longrightarrow>
      count_list (fetched_tokens items) t =
        length (filter (\<lambda>i. t \<in> set (fetched_problemas (item_problemas i))) items)"
    using count_list_records [of "map (\<lambda>i. fetched_problemas (item_problemas i)) items" t]
    by (simp add: fetched_tokens_def filter_map comp_def)
  with map_of_foldl_bump [OF assms, of t] sum_of_counts_foldl_bump [OF assms]
  show ?thesis by (simp add: stats)
qed

text \<open>The three records of the example scenario of the specification.\<close>

theorem C2_issueCounts_witness:
  "list_all (\<lambda>t. t \<notin> set inherited_keys) (fetched_tokens
        [blank_item\<lparr>item_problemas := Str ''robo, iluminacion''\<rparr>,
         blank_item\<lparr>item_problemas := Str ''''\<rparr>,
         blank_item\<lparr>item_problemas := Str ''robo''\<rparr>]) \<and>
   list_all (\<lambda>i. distinct (fetched_problemas (item_problemas i)))
        [blank_item\<lparr>item_problemas := Str ''robo, iluminacion''\<rparr>,
         blank_item\<lparr>item_problemas := Str ''''\<rparr>,
         blank_item\<lparr>item_problemas := Str ''robo''\<rparr>] \<and>
   map_of (problemasStats (map (fetched_survey no_locale no_locale)
        [blank_item\<lparr>item_problemas := Str ''robo, iluminacion''\<rparr>,
         blank_item\<lparr>item_problemas := Str ''''\<rparr>,
         blank_item\<lparr>item_problemas := Str ''robo''\<rparr>])) ''robo'' = Some (Count 2) \<and>
   sum_of_counts (problemasStats (map (fetched_survey no_locale no_locale)
        [blank_item\<lparr>item_problemas := Str ''robo, iluminacion''\<rparr>,
         blank_item\<lparr>item_problemas := Str ''''\<rparr>,
         blank_item\<lparr>item_problemas := Str ''robo''\<rparr>])) = Some 3 \<and>
   length (filter (\<lambda>i. ''robo'' \<in> set (fetched_problemas (item_problemas i)))
        [blank_item\<lparr>item_problemas := Str ''robo, iluminacion''\<rparr>,
         blank_item\<lparr>item_problemas := Str ''''\<rparr>,
         blank_item\<lparr>item_problemas := Str ''robo''\<rparr>]) = 2"
proof -
  let ?items = "[blank_item\<lparr>item_problemas := Str ''robo, iluminacion''\<rparr>,
         blank_item\<lparr>item_problemas := Str ''''\<rparr>,
         blank_item\<lparr>item_problemas := Str ''robo''\<rparr>]"
  have tokens: "fetched_tokens ?items = [''robo'', ''iluminacion'', ''robo'']"
    by code_simp
  have ok: "\<forall>t \<in> set (fetched_tokens ?items). t \<notin> set inherited_keys"
    by code_simp
  have sets: "\<forall>i \<in> set ?items. distinct (fetched_problemas (item_problemas i))"
    by code_simp
  from C2_issueCounts [OF ok, of no_locale no_locale "''robo''"] sets
  have "map_of (problemasStats (map (fetched_survey no_locale no_locale) ?items)) ''robo'' =
           (if ''robo'' \<in> set (fetched_tokens ?items)
            then Some (Count (count_list (fetched_tokens ?items) ''robo'')) else None)"
    and "sum_of_counts (problemasStats (map (fetched_survey no_locale no_locale) ?items)) =
           Some (length (fetched_tokens ?items))"
    and "count_list (fetched_tokens ?items) ''robo'' =
              length (filter (\<lambda>i. ''robo'' \<in> set (fetched_problemas (item_problemas i))) ?items)"
    by blast+
  with ok sets show ?thesis unfolding list_all_iff by (simp add: tokens)
qed

text \<open>
  A stored string that ends with the separator: \<^verbatim>\<open>'robo, '.split(', ')\<close> is
  \<^verbatim>\<open>['robo', '']\<close>, and the empty token gets a count of its own, while the issue
  counts of the specification have no empty tag.
\<close>

theorem C2_counterexample:
  "map_of (problemasStats (map (fetched_survey no_locale no_locale)
       [blank_item\<lparr>item_problemas := Str ''robo, ''\<rparr>])) [] = Some (Count 1) \<and>
   spec_issueCounts [blank_item\<lparr>item_problemas := Str ''robo, ''\<rparr>] [] = None"
  by code_simp

text \<open>
  C3 (amended). If no token names a property inherited from \<^verbatim>\<open>Object.prototype\<close> and
  no token is an array index (the canonical numeral of an integer below \<open>2\<^sup>3\<^sup>2 - 1\<close>),
  then \<^verbatim>\<open>topIssues\<close> is the list of the entries of the issue counts, taken in the
  order in which the tokens were first met, sorted by descending count with ties
  keeping that order, and cut to the first five.
\<close>

theorem C3_topIssues:
  assumes "\<forall>t \<in> set (fetched_tokens items). t \<notin> set inherited_keys \<and> \<not> is_array_index t"
  shows "topIssues (map (fetched_survey ld lt) items) = spec_topIssues (fetched_tokens items)"
proof -
  let ?ks = "fetched_tokens items"
  from assms have ok: "\<forall>t \<in> set ?ks. t \<notin> set inherited_keys" by simp
  have stats: "problemasStats (map (fetched_survey ld lt) items) = foldl bump [] ?ks"
    by (simp only: problemasStats_eq problemas_fetched)
  have keys: "map fst (foldl bump [] ?ks) = first_seen ?ks"
    by (rule keys_foldl_bump [OF assms])
  then have "distinct (map fst (foldl bump [] ?ks))" by (simp add: distinct_first_seen)
  from entries_from_keys [OF this]
  have "foldl bump [] ?ks = map (\<lambda>k. (k, the (map_of (foldl bump [] ?ks) k))) (first_seen ?ks)"
    by (simp only: keys)
  also have "\<dots> = encounter_entries ?ks"
    unfolding encounter_entries_def
    by (rule map_cong [OF refl]) (simp add: map_of_foldl_bump [OF ok] set_first_seen)
  finally have entries: "foldl bump [] ?ks = encounter_entries ?ks" .
  from all_counts_foldl_bump [OF ok] have "all_counts (encounter_entries ?ks)"
    by (simp only: entries)
  from sort_by_count [OF this] show ?thesis
    by (simp add: topIssues_def spec_topIssues_def stats entries)
qed

lemma spec_topIssues_meaning:
  "\<exists>ranked. spec_topIssues tokens = take 5 ranked \<and>
     mset ranked = mset (encounter_entries tokens) \<and>
     sorted_wrt (\<lambda>a b. count_of (snd b) \<le> count_of (snd a)) ranked \<and>
     (\<forall>n. filter (\<lambda>e. count_of (snd e) = n) ranked
           = filter (\<lambda>e. count_of (snd e) = n) (encounter_entries tokens))"
proof (intro exI conjI allI)
  let ?ranked = "sort_key count_key (encounter_entries tokens)"
  show "spec_topIssues tokens = take 5 ?ranked" by (simp add: spec_topIssues_def)
  show "mset ?ranked = mset (encounter_entries tokens)" by simp
  have "sorted (map count_key ?ranked)" by (rule sorted_sort_key)
  then show "sorted_wrt (\<lambda>a b. count_of (snd b) \<le> count_of (snd a)) ?ranked"
    by (simp add: sorted_map count_key_def)
  fix n
  have "(\<lambda>e. count_of (snd e) = n) = (\<lambda>e. count_key e = - int n)"
    by (auto simp: count_key_def)
  then show "filter (\<lambda>e. count_of (snd e) = n) ?ranked
           = filter (\<lambda>e. count_of (snd e) = n) (encounter_entries tokens)"
    by (simp only: sort_key_stable)
qed

text \<open>The example scenario of the specification.\<close>

theorem C3_topIssues_witness:
  "list_all (\<lambda>t. t \<notin> set inherited_keys \<and> \<not> is_array_index t) (fetched_tokens
        [blank_item\<lparr>item_problemas := Str ''robo, iluminacion''\<rparr>,
         blank_item\<lparr>item_problemas := Str ''''\<rparr>,
         blank_item\<lparr>item_problemas := Str ''robo''\<rparr>]) \<and>
   topIssues (map (fetched_survey no_locale no_locale)
        [blank_item\<lparr>item_problemas := Str ''robo, iluminacion''\<rparr>,
         blank_item\<lparr>item_problemas := Str ''''\<rparr>,
         blank_item\<lparr>item_problemas := Str ''robo''\<rparr>])
     = [(''robo'', Count 2), (''iluminacion'', Count 1)]"
proof -
  let ?items = "[blank_item\<lparr>item_problemas := Str ''robo, iluminacion''\<rparr>,
         blank_item\<lparr>item_problemas := Str ''''\<rparr>,
         blank_item\<lparr>item_problemas := Str ''robo''\<rparr>]"
  have ok: "\<forall>t \<in> set (fetched_tokens ?items). t \<notin> set inherited_keys \<and> \<not> is_array_index t"
    by code_simp
  have ranked: "spec_topIssues (fetched_tokens ?items)
      = [(''robo'', Count 2), (''iluminacion'', Count 1)]"
    by code_simp
  from C3_topIssues [OF ok, of no_locale no_locale] ok show ?thesis
    unfolding list_all_iff by (simp only: ranked)
qed

text \<open>
  Two records with one tag each, first \<^verbatim>\<open>robo\<close>, then \<^verbatim>\<open>7\<close>. The key \<^verbatim>\<open>7\<close> is an
  array index, so \<^verbatim>\<open>Object.entries\<close> lists it before \<^verbatim>\<open>robo\<close>, and the stable sort
  keeps it first among the two entries of count 1.
\<close>

theorem C3_counterexample:
  "topIssues (map (fetched_survey no_locale no_locale)
       [blank_item\<lparr>item_problemas := Str ''robo''\<rparr>, blank_item\<lparr>item_problemas := Str ''7''\<rparr>])
     = [(''7'', Count 1), (''robo'', Count 1)] \<and>
   spec_topIssues (fetched_tokens
       [blank_item\<lparr>item_problemas := Str ''robo''\<rparr>, blank_item\<lparr>item_problemas := Str ''7''\<rparr>])
     = [(''robo'', Count 1), (''7'', Count 1)]"
  by code_simp

section \<open>The sum of the ratings\<close>

lemma totalCalificaciones_eq:
  "totalCalificaciones svs = foldl total_step (Fin 0) (calificacionStats svs)"
proof -
  have "(\<lambda>sum (cal, count). num_add sum (num_mul (parseInt cal) (to_number count))) = total_step"
    by (auto simp: total_step_def fun_eq_iff)
  then show ?thesis by (simp add: totalCalificaciones_def)
qed

lemma total_step_exact:
  assumes v: "snd p = Count n"
    and parse: "parsed_integer (fst p) = Some z"
    and z: "\<bar>z\<bar> \<le> 2 ^ 53"
    and bound: "\<bar>a\<bar> + \<bar>z\<bar> * int n \<le> 2 ^ 53"
  shows "total_step (Fin (of_int a)) p = Fin (of_int (a + z * int n))"
proof -
  have "0 \<le> \<bar>a\<bar>" by simp
  with bound have prod: "\<bar>z * int n\<bar> \<le> 2 ^ 53" by (simp add: abs_mult)
  have "\<bar>a + z * int n\<bar> \<le> \<bar>a\<bar> + \<bar>z\<bar> * int n"
    using abs_triangle_ineq [of a "z * int n"] by (simp add: abs_mult)
  with bound have sum: "\<bar>a + z * int n\<bar> \<le> 2 ^ 53" by simp
  have "parseInt (fst p) = Fin (of_int z)"
    by (simp add: parseInt_def parse to_double_of_int [OF z])
  moreover have "(of_int z :: rat) * of_nat n = of_int (z * int n)" by simp
  then have "to_double (of_int z * of_nat n) = Fin (of_int (z * int n))"
    using to_double_of_int [OF prod] by (simp only:)
  moreover have "(of_int a :: rat) + of_int (z * int n) = of_int (a + z * int n)" by simp
  then have "to_double (of_int a + of_int (z * int n)) = Fin (of_int (a + z * int n))"
    using to_double_of_int [OF sum] by (simp only:)
  ultimately show ?thesis by (simp add: total_step_def v)
qed

lemma foldl_total_step_exact:
  assumes "all_counts ps"
    and "\<forall>p \<in> set ps. parsed_integer (fst p) \<noteq> None \<and> \<bar>rating_value (fst p)\<bar> \<le> 2 ^ 53"
    and "\<bar>a\<bar> + weighted_sum (\<lambda>k. \<bar>rating_value k\<bar>) ps \<le> 2 ^ 53"
  shows "foldl total_step (Fin (of_int a)) ps = Fin (of_int (a + weighted_sum rating_value ps))"
  using assms
proof (induction ps arbitrary: a)
  case Nil
  show ?case by (simp add: weighted_sum_def)
next
  case (Cons p ps)
  from Cons.prems(1) obtain n where v: "snd p = Count n" and rest: "all_counts ps"
    by (cases "snd p") (auto simp: all_counts_def)
  from Cons.prems(2) obtain z where parse: "parsed_integer (fst p) = Some z"
    and z: "\<bar>rating_value (fst p)\<bar> \<le> 2 ^ 53"
    and ps: "\<forall>p \<in> set ps. parsed_integer (fst p) \<noteq> None \<and> \<bar>rating_value (fst p)\<bar> \<le> 2 ^ 53"
    by auto
  from parse have rv: "rating_value (fst p) = z" by (simp add: rating_value_def)
  have w_abs: "weighted_sum (\<lambda>k. \<bar>rating_value k\<bar>) (p # ps)
      = \<bar>z\<bar> * int n + weighted_sum (\<lambda>k. \<bar>rating_value k\<bar>) ps"
    by (simp add: weighted_sum_def rv v)
  have w: "weighted_sum rating_value (p # ps) = z * int n + weighted_sum rating_value ps"
    by (simp add: weighted_sum_def rv v)
  have nonneg: "0 \<le> weighted_sum (\<lambda>k. \<bar>rating_value k\<bar>) ps"
    unfolding weighted_sum_def by (rule sum_list_nonneg) auto
  from Cons.prems(3) nonneg have b1: "\<bar>a\<bar> + \<bar>z\<bar> * int n \<le> 2 ^ 53"
    unfolding w_abs by linarith
  have "\<bar>a + z * int n\<bar> \<le> \<bar>a\<bar> + \<bar>z\<bar> * int n"
    using abs_triangle_ineq [of a "z * int n"] by (simp add: abs_mult)
  with Cons.prems(3) have b2: "\<bar>a + z * int n\<bar> + weighted_sum (\<lambda>k. \<bar>rating_value k\<bar>) ps \<le> 2 ^ 53"
    unfolding w_abs by linarith
  from z rv have z': "\<bar>z\<bar> \<le> 2 ^ 53" by simp
  have "foldl total_step (Fin (of_int a)) (p # ps)
      = foldl total_step (Fin (of_int (a + z * int n))) ps"
    by (simp add: total_step_exact [OF v parse z' b1])
  also have "\<dots> = Fin (of_int (a + z * int n + weighted_sum rating_value ps))"
    by (rule Cons.IH [OF rest ps b2])
  finally show ?case by (simp add: w add.assoc)
qed

lemma foldl_total_step_NaN: "foldl total_step NaN ps = NaN"
  by (induction ps) (simp_all add: total_step_def)

lemma num_add_NaN: "num_add x NaN = NaN"
  by (cases x) simp_all

lemma num_mul_NaN: "num_mul NaN y = NaN"
  by (cases y) simp_all

lemma foldl_total_step_unparsable:
  "\<exists>p \<in> set ps. parsed_integer (fst p) = None \<Longrightarrow> foldl total_step acc ps = NaN"
proof (induction ps arbitrary: acc)
  case Nil
  then show ?case by simp
next
  case (Cons p ps)
  show ?case
  proof (cases "parsed_integer (fst p) = None")
    case True
    then have "total_step acc p = NaN"
      by (simp add: total_step_def parseInt_def num_add_NaN)
    then show ?thesis by (simp add: foldl_total_step_NaN)
  next
    case False
    with Cons.prems have "\<exists>p \<in> set ps. parsed_integer (fst p) = None" by auto
    from Cons.IH [OF this] show ?thesis by simp
  qed
qed

section \<open>The average rating\<close>

lemma inherited_not_parsed: "\<forall>k \<in> set inherited_keys. parsed_integer k = None"
  by code_simp

lemma keys_bump_superset: "fst ` set ps \<subseteq> fst ` set (bump ps k)"
proof -
  have w: "\<And>k v. fst ` set (write_property ps k v) = fst ` set ps"
    using keys_write_property [of ps] by (metis set_map)
  have c: "\<And>v. fst ` set (create_property ps k v) = insert k (fst ` set ps)"
    by (simp add: set_create_property)
  show ?thesis
    by (auto simp: bump_def w c split: option.split jsval.split)
qed

lemma key_bump_present: "k \<noteq> ''__proto__'' \<Longrightarrow> k \<in> fst ` set (bump ps k)"
proof (cases "map_of ps k")
  case None
  assume "k \<noteq> ''__proto__''"
  with None show ?thesis by (simp add: bump_def set_create_property)
next
  case (Some v)
  then have "k \<in> fst ` set ps" by (metis map_of_eq_None_iff option.distinct(1))
  with keys_bump_superset [of ps k] show ?thesis by blast
qed

lemma keys_foldl_bump_superset: "fst ` set ps \<subseteq> fst ` set (foldl bump ps ks)"
proof (induction ks arbitrary: ps)
  case Nil
  show ?case by simp
next
  case (Cons k ks)
  from keys_bump_superset [of ps k] Cons.IH [of "bump ps k"] show ?case by auto
qed

lemma key_foldl_bump_present:
  "k \<in> set ks \<Longrightarrow> k \<noteq> ''__proto__'' \<Longrightarrow> k \<in> fst ` set (foldl bump ps ks)"
proof (induction ks arbitrary: ps)
  case Nil
  then show ?case by simp
next
  case (Cons x ks)
  show ?case
  proof (cases "k = x")
    case True
    with Cons.prems(2) have "k \<in> fst ` set (bump ps x)" by (simp add: key_bump_present)
    with keys_foldl_bump_superset [of "bump ps x" ks] show ?thesis by auto
  next
    case False
    with Cons.prems have "k \<in> set ks" by simp
    from Cons.IH [OF this Cons.prems(2), of "bump ps x"] show ?thesis by simp
  qed
qed

lemma keys_foldl_bump_subset:
  assumes "\<forall>k \<in> set ks. k \<notin> set inherited_keys"
  shows "fst ` set (foldl bump [] ks) \<subseteq> set ks"
proof
  fix k assume "k \<in> fst ` set (foldl bump [] ks)"
  then have "map_of (foldl bump [] ks) k \<noteq> None" by (simp add: map_of_eq_None_iff)
  with map_of_foldl_bump [OF assms, of k] show "k \<in> set ks" by (simp split: if_splits)
qed

lemma member_le_sum_list_int:
  fixes xs :: "int list"
  shows "\<forall>x \<in> set xs. 0 \<le> x \<Longrightarrow> y \<in> set xs \<Longrightarrow> y \<le> sum_list xs"
proof (induction xs)
  case Nil
  then show ?case by simp
next
  case (Cons x xs)
  then have "0 \<le> sum_list xs" by (simp add: sum_list_nonneg)
  with Cons show ?case by auto
qed

lemma calificacion_fetched:
  "map calificacion (map (fetched_survey ld lt) items) = map fetched_rating items"
  by (simp add: fetched_survey_def fetched_rating_def)

lemma totalCalificaciones_exact:
  assumes parse: "\<forall>i \<in> set items. parsed_integer (fetched_rating i) \<noteq> None"
    and bound: "sum_list (map (\<lambda>i. \<bar>rating_value (fetched_rating i)\<bar>) items) \<le> 2 ^ 53"
  shows "totalCalificaciones (map (fetched_survey ld lt) items)
       = Fin (of_int (sum_list (map (\<lambda>i. rating_value (fetched_rating i)) items)))"
proof -
  let ?ks = "map fetched_rating items"
  let ?ps = "foldl bump [] ?ks"
  have stats: "calificacionStats (map (fetched_survey ld lt) items) = ?ps"
    by (simp only: calificacionStats_eq calificacion_fetched)
  from parse inherited_not_parsed have ok: "\<forall>k \<in> set ?ks. k \<notin> set inherited_keys" by auto
  have "all_counts []" by (simp add: all_counts_def)
  from foldl_bump_counts [OF this ok]
  have counts: "all_counts ?ps"
    and w: "\<And>f. weighted_sum f ?ps = sum_list (map f ?ks)"
    by (simp_all add: weighted_sum_def)
  have abs_sum: "sum_list (map (\<lambda>k. \<bar>rating_value k\<bar>) ?ks) \<le> 2 ^ 53"
    using bound by (simp add: comp_def)
  have keys: "\<forall>p \<in> set ?ps. parsed_integer (fst p) \<noteq> None \<and> \<bar>rating_value (fst p)\<bar> \<le> 2 ^ 53"
  proof
    fix p assume "p \<in> set ?ps"
    with keys_foldl_bump_subset [OF ok] have k: "fst p \<in> set ?ks" by auto
    then have "\<bar>rating_value (fst p)\<bar> \<in> set (map (\<lambda>k. \<bar>rating_value k\<bar>) ?ks)" by auto
    then have "\<bar>rating_value (fst p)\<bar> \<le> sum_list (map (\<lambda>k. \<bar>rating_value k\<bar>) ?ks)"
      by (intro member_le_sum_list_int) auto
    with abs_sum k parse
    show "parsed_integer (fst p) \<noteq> None \<and> \<bar>rating_value (fst p)\<bar> \<le> 2 ^ 53" by auto
  qed
  have "\<bar>0::int\<bar> + weighted_sum (\<lambda>k. \<bar>rating_value k\<bar>) ?ps \<le> 2 ^ 53"
    using abs_sum by (simp add: w)
  from foldl_total_step_exact [OF counts keys this]
  show ?thesis by (simp add: totalCalificaciones_eq stats w comp_def)
qed

lemma totalCalificaciones_unparsable:
  assumes "i \<in> set items" and "parsed_integer (fetched_rating i) = None"
    and "fetched_rating i \<noteq> ''__proto__''"
  shows "totalCalificaciones (map (fetched_survey ld lt) items) = NaN"
proof -
  let ?ks = "map fetched_rating items"
  have stats: "calificacionStats (map (fetched_survey ld lt) items) = foldl bump [] ?ks"
    by (simp only: calificacionStats_eq calificacion_fetched)
  from assms(1) have "fetched_rating i \<in> set ?ks" by simp
  from key_foldl_bump_present [OF this assms(3), of "[]"]
  obtain p where p: "p \<in> set (foldl bump [] ?ks)" and "fst p = fetched_rating i" by auto
  with assms(2) have "parsed_integer (fst p) = None" by simp
  with p have "\<exists>p \<in> set (foldl bump [] ?ks). parsed_integer (fst p) = None" by blast
  from foldl_total_step_unparsable [OF this] show ?thesis
    by (simp add: totalCalificaciones_eq stats)
qed

text \<open>
  C1 (amended). A missing or empty rating is replaced by \<^verbatim>\<open>'3'\<close> when the record is
  fetched. For no record the average is the number 0. If every rating text parses as
  an integer and the absolute values of these integers sum to at most \<open>2\<^sup>5\<^sup>3\<close> (so
  that the sum is computed exactly), the average is \<^verbatim>\<open>toFixed(1)\<close> of the double
  nearest to the sum of the parsed ratings divided by the number of records. If some
  rating text other than \<^verbatim>\<open>__proto__\<close> does not parse, the average is the text
  \<^verbatim>\<open>NaN\<close>. No case raises an exception.
\<close>

theorem C1_averageRating:
  "(items = [] \<longrightarrow> promedioCalificacion (map (fetched_survey ld lt) items) = Number (Fin 0)) \<and>
   (items \<noteq> [] \<and> (\<forall>i \<in> set items. parsed_integer (fetched_rating i) \<noteq> None) \<and>
      sum_list (map (\<lambda>i. \<bar>rating_value (fetched_rating i)\<bar>) items) \<le> 2 ^ 53 \<longrightarrow>
    promedioCalificacion (map (fetched_survey ld lt) items) =
      Formatted (toFixed1 (to_double
        (of_int (sum_list (map (\<lambda>i. rating_value (fetched_rating i)) items))
           / of_nat (length items))))) \<and>
   ((\<exists>i \<in> set items. parsed_integer (fetched_rating i) = None \<and>
        fetched_rating i \<noteq> ''__proto__'') \<longrightarrow>
    promedioCalificacion (map (fetched_survey ld lt) items) = Formatted (Text ''NaN''))"
proof (intro conjI impI)
  assume "items = []"
  then show "promedioCalificacion (map (fetched_survey ld lt) items) = Number (Fin 0)"
    by (simp add: promedioCalificacion_def)
next
  assume h: "items \<noteq> [] \<and> (\<forall>i \<in> set items. parsed_integer (fetched_rating i) \<noteq> None) \<and>
      sum_list (map (\<lambda>i. \<bar>rating_value (fetched_rating i)\<bar>) items) \<le> 2 ^ 53"
  then have "totalCalificaciones (map (fetched_survey ld lt) items)
       = Fin (of_int (sum_list (map (\<lambda>i. rating_value (fetched_rating i)) items)))"
    by (intro totalCalificaciones_exact) simp_all
  with h show "promedioCalificacion (map (fetched_survey ld lt) items) =
      Formatted (toFixed1 (to_double
        (of_int (sum_list (map (\<lambda>i. rating_value (fetched_rating i)) items))
           / of_nat (length items))))"
    by (simp add: promedioCalificacion_def)
next
  assume "\<exists>i \<in> set items. parsed_integer (fetched_rating i) = None \<and>
        fetched_rating i \<noteq> ''__proto__''"
  then obtain i where i: "i \<in> set items" "parsed_integer (fetched_rating i) = None"
    "fetched_rating i \<noteq> ''__proto__''" by auto
  from i(1) have "items \<noteq> []" by auto
  with totalCalificaciones_unparsable [OF i, of ld lt]
  show "promedioCalificacion (map (fetched_survey ld lt) items) = Formatted (Text ''NaN'')"
    by (simp add: promedioCalificacion_def toFixed1_def)
qed

text \<open>
  No record; the ratings 5, missing and 4, which average to 4.0; a rating that does
  not parse.
\<close>

theorem C1_averageRating_witness:
  "([] :: item list) = [] \<and>
   promedioCalificacion (map (fetched_survey no_locale no_locale) []) = Number (Fin 0) \<and>
   [blank_item\<lparr>item_calificacion := Str ''5''\<rparr>, blank_item,
      blank_item\<lparr>item_calificacion := Str ''4''\<rparr>] \<noteq> [] \<and>
   list_all (\<lambda>i. parsed_integer (fetched_rating i) \<noteq> None)
     [blank_item\<lparr>item_calificacion := Str ''5''\<rparr>, blank_item,
      blank_item\<lparr>item_calificacion := Str ''4''\<rparr>] \<and>
   sum_list (map (\<lambda>i. \<bar>rating_value (fetched_rating i)\<bar>)
     [blank_item\<lparr>item_calificacion := Str ''5''\<rparr>, blank_item,
      blank_item\<lparr>item_calificacion := Str ''4''\<rparr>]) \<le> 2 ^ 53 \<and>
   promedioCalificacion (map (fetched_survey no_locale no_locale)
     [blank_item\<lparr>item_calificacion := Str ''5''\<rparr>, blank_item,
      blank_item\<lparr>item_calificacion := Str ''4''\<rparr>]) = Formatted (Text ''4.0'') \<and>
   (\<exists>i \<in> set [blank_item\<lparr>item_calificacion := Str ''cinco''\<rparr>].
      parsed_integer (fetched_rating i) = None \<and> fetched_rating i \<noteq> ''__proto__'') \<and>
   promedioCalificacion (map (fetched_survey no_locale no_locale)
     [blank_item\<lparr>item_calificacion := Str ''cinco''\<rparr>]) = Formatted (Text ''NaN'')"
proof -
  let ?items = "[blank_item\<lparr>item_calificacion := Str ''5''\<rparr>, blank_item,
      blank_item\<lparr>item_calificacion := Str ''4''\<rparr>]"
  let ?bad = "[blank_item\<lparr>item_calificacion := Str ''cinco''\<rparr>]"
  have parse: "\<forall>i \<in> set ?items. parsed_integer (fetched_rating i) \<noteq> None"
    by code_simp
  have bound: "sum_list (map (\<lambda>i. \<bar>rating_value (fetched_rating i)\<bar>) ?items) \<le> 2 ^ 53"
    by code_simp
  have bad: "\<exists>i \<in> set ?bad. parsed_integer (fetched_rating i) = None \<and>
      fetched_rating i \<noteq> ''__proto__''"
    by code_simp
  have shown: "toFixed1 (to_double
        (of_int (sum_list (map (\<lambda>i. rating_value (fetched_rating i)) ?items))
           / of_nat (length ?items))) = Text ''4.0''"
    by code_simp
  from C1_averageRating [of "[]" no_locale no_locale]
  have empty: "promedioCalificacion (map (fetched_survey no_locale no_locale) []) = Number (Fin 0)"
    by simp
  from C1_averageRating [of ?items no_locale no_locale] parse bound
  have "promedioCalificacion (map (fetched_survey no_locale no_locale) ?items) =
      Formatted (toFixed1 (to_double
        (of_int (sum_list (map (\<lambda>i. rating_value (fetched_rating i)) ?items))
           / of_nat (length ?items))))"
    by blast
  then have good: "promedioCalificacion (map (fetched_survey no_locale no_locale) ?items)
      = Formatted (Text ''4.0'')"
    by (simp only: shown)
  from C1_averageRating [of ?bad no_locale no_locale] bad
  have nan: "promedioCalificacion (map (fetched_survey no_locale no_locale) ?bad)
      = Formatted (Text ''NaN'')"
    by blast
  from empty parse bound good bad nan show ?thesis unfolding list_all_iff by blast
qed

text \<open>
  One record without a rating: the program shows 3.0, where a missing rating that
  contributes 0 would give 0.0. One record with the rating \<^verbatim>\<open>cinco\<close>: the program
  shows NaN, where an unparsable rating that contributes 0 would give 0.0.
\<close>

theorem C1_counterexample:
  "promedioCalificacion (map (fetched_survey no_locale no_locale) [blank_item])
     = Formatted (Text ''3.0'') \<and>
   spec_averageRating [blank_item] = Formatted (Text ''0.0'') \<and>
   promedioCalificacion (map (fetched_survey no_locale no_locale)
       [blank_item\<lparr>item_calificacion := Str ''cinco''\<rparr>])
     = Formatted (Text ''NaN'') \<and>
   spec_averageRating [blank_item\<lparr>item_calificacion := Str ''cinco''\<rparr>]
     = Formatted (Text ''0.0'')"
  by code_simp

section \<open>The exported file\<close>










text \<open>
  C6. With no survey in memory, \<^verbatim>\<open>exportResults\<close> sets the warning
  \<^verbatim>\<open>No hay datos para exportar.\<close>, sets no timer, and no file is produced. The
  function is total: no input makes it raise.
\<close>

theorem C6_export_empty:
  assumes "surveys p = []"
  shows "exportResults p =
           (p\<lparr>alert := Some \<lparr> type' = Warning,
               message = [CHR 0xE2, CHR 0x9D, CHR 0x8C] @ '' No hay datos para exportar.'' \<rparr>\<rparr>,
            None) \<and>
         exported_files now p = []"
  using assms by (simp add: exportResults_def exported_files_def)

theorem C6_export_empty_witness:
  "surveys \<lparr> surveys = [], alert = None, loading = False \<rparr> = [] \<and>
   exportResults \<lparr> surveys = [], alert = None, loading = False \<rparr> =
     (\<lparr> surveys = [],
        alert = Some \<lparr> type' = Warning,
          message = [CHR 0xE2, CHR 0x9D, CHR 0x8C] @ '' No hay datos para exportar.'' \<rparr>,
        loading = False \<rparr>, None) \<and>
   exported_files ''2025-01-01T00:00:00.000Z'' \<lparr> surveys = [], alert = None, loading = False \<rparr> = []"
proof -
  have h: "surveys \<lparr> surveys = [], alert = None, loading = False \<rparr> = []" by simp
  from h C6_export_empty [OF h, of "''2025-01-01T00:00:00.000Z''"] show ?thesis by simp
qed

section \<open>Failure of the fetch, and clearing\<close>

lemma fetchSurveys_rejected:
  "fetchSurveys ld lt (Inl m) p =
     p\<lparr>alert := Some \<lparr> type' = Danger,
          message = [CHR 0xE2, CHR 0x9D, CHR 0x8C] @
            '' Error al cargar datos del servidor. <br/><small>'' @ m @ ''</small>'' \<rparr>,
       loading := False\<rparr>"
  by (simp add: fetchSurveys_def)

lemma axios_get_fails:
  "network \<noteq> None \<or> fault db \<noteq> None \<Longrightarrow> \<exists>m. axios_get network (get_respuestas db) = Inl m"
  by (auto simp: axios_get_def get_respuestas_def Respuesta_find_def split: option.splits)

text \<open>
  C7. When the request of \<^verbatim>\<open>fetchSurveys\<close> is rejected with a message \<open>m\<close>, the
  surveys in memory are the ones from before, the alert is of type danger and carries
  \<open>m\<close>, and the loading flag is off. A network error and a store that cannot be
  reached are such rejections.
\<close>

theorem C7_fetch_failure:
  "surveys (fetchSurveys ld lt (Inl m) p) = surveys p \<and>
   alert (fetchSurveys ld lt (Inl m) p) =
     Some \<lparr> type' = Danger,
            message = [CHR 0xE2, CHR 0x9D, CHR 0x8C] @
              '' Error al cargar datos del servidor. <br/><small>'' @ m @ ''</small>'' \<rparr> \<and>
   loading (fetchSurveys ld lt (Inl m) p) = False \<and>
   (network \<noteq> None \<or> fault (server w) \<noteq> None \<longrightarrow>
      surveys (admin (fetch_world ld lt network w)) = surveys (admin w) \<and>
      map_option type' (alert (admin (fetch_world ld lt network w))) = Some Danger)"
proof -
  have "surveys (admin (fetch_world ld lt network w)) = surveys (admin w) \<and>
      map_option type' (alert (admin (fetch_world ld lt network w))) = Some Danger"
    if "network \<noteq> None \<or> fault (server w) \<noteq> None"
  proof -
    from axios_get_fails [OF that] obtain m'
      where "axios_get network (get_respuestas (server w)) = Inl m'" by blast
    then show ?thesis by (simp add: fetch_world_def fetchSurveys_rejected)
  qed
  then show ?thesis by (simp add: fetchSurveys_rejected)
qed

theorem C7_fetch_failure_witness:
  "Some ''Network Error'' \<noteq> (None :: string option) \<and>
   surveys (admin (fetch_world no_locale no_locale (Some ''Network Error'') sample_world))
     = [sample_survey] \<and>
   map_option type' (alert (admin (fetch_world no_locale no_locale (Some ''Network Error'') sample_world)))
     = Some Danger"
proof -
  have h: "Some ''Network Error'' \<noteq> None \<or> fault (server sample_world) \<noteq> None" by simp
  have s: "surveys (admin sample_world) = [sample_survey]" by (simp add: sample_world_def)
  from C7_fetch_failure [of no_locale no_locale _ _ "Some ''Network Error''" sample_world] h
  have "surveys (admin (fetch_world no_locale no_locale (Some ''Network Error'') sample_world))
      = surveys (admin sample_world) \<and>
    map_option type' (alert (admin (fetch_world no_locale no_locale (Some ''Network Error'') sample_world)))
      = Some Danger"
    by blast
  with h s show ?thesis by simp
qed

text \<open>
  C8. \<^verbatim>\<open>clearResults\<close> leaves the store and the list of requests sent as they
  are; when confirmed it empties the surveys in memory, when declined it changes
  nothing. The answer of the server to a fetch is the same after it, and a fetch that
  succeeds after clearing shows the stored records again.
\<close>

theorem C8_clear_is_local:
  "server (clear_world confirmed w) = server w \<and>
   sent (clear_world confirmed w) = sent w \<and>
   surveys (admin (clear_world True w)) = [] \<and>
   clear_world False w = w \<and>
   get_respuestas (server (clear_world confirmed w)) = get_respuestas (server w) \<and>
   (fault (server w) = None \<longrightarrow>
      surveys (admin (fetch_world ld lt None (clear_world confirmed w))) =
        map (fetched_survey ld lt) (respuestas (server w)) \<and>
      surveys (admin (fetch_world ld lt None w)) =
        map (fetched_survey ld lt) (respuestas (server w)))"
  by (simp add: clear_world_def clearResults_def fetch_world_def fetchSurveys_def axios_get_def
      get_respuestas_def Respuesta_find_def)

theorem C8_clear_is_local_witness:
  "fault (server sample_world) = None \<and>
   surveys (admin (clear_world True sample_world)) = [] \<and>
   surveys (admin (fetch_world no_locale no_locale None (clear_world True sample_world))) =
     map (fetched_survey no_locale no_locale) (respuestas (server sample_world)) \<and>
   sent (clear_world True sample_world) = []"
proof -
  have h: "fault (server sample_world) = None" by (simp add: sample_world_def)
  have s: "sent sample_world = []" by (simp add: sample_world_def)
  from C8_clear_is_local [of True sample_world no_locale no_locale] h s show ?thesis by simp
qed

section \<open>Login\<close>

lemma post_login_wrong_password:
  assumes "User_findOne db (req_usuario req) = Inr (Some u)"
    and "Str (password u) \<noteq> req_password req"
  shows "post_login db req = \<lparr> status = 401, body = Mensaje ''Credenciales incorrectas'' \<rparr>"
  using assms by (simp add: post_login_def)

lemma start_server_js: "start server_js = Inl ''app''"
  by (simp add: start_def server_js_def)

text \<open>
  Without the statement of line 4 the module loads, listens and has the login route.
\<close>

lemma start_without_line_4:
  "start (remove1 (Use ''cors({origin})'') server_js) =
     Inr \<lparr> app = Some [(''POST'', ''/api/respuestas''), (''GET'', ''/api/respuestas''),
                       (''POST'', ''/api/login''), (''POST'', ''/api/register'')],
           listening = True \<rparr>"
  by (simp add: start_def server_js_def)

lemma login_endpoint_without_line_4:
  "login_endpoint (remove1 (Use ''cors({origin})'') server_js) db req = Some (post_login db req)"
  by (simp add: login_endpoint_def start_without_line_4)

text \<open>
  C9. The claim is that a login request for a stored \<^verbatim>\<open>usuario\<close> with another
  password is answered by 401. The handler of lines 68 to 80 does answer 401 to it
  (\<open>post_login_wrong_password\<close>), but \<^verbatim>\<open>server.js\<close> reads \<^verbatim>\<open>app\<close> on line 4, before
  line 9 declares it: loading the module throws a \<^verbatim>\<open>ReferenceError\<close>, the route of
  line 68 is never registered, and the process answers no login request. For the
  administrator \<^verbatim>\<open>admin\<close> of the sample store and the password \<^verbatim>\<open>1234\<close> the handler
  would answer 401 and the endpoint gives no answer.
\<close>

theorem C9_login_never_answered:
  "start server_js = Inl ''app'' \<and>
   login_endpoint server_js db req = None \<and>
   User_findOne (server sample_world) ''admin'' =
     Inr (Some \<lparr> usuario = ''admin'', email = ''admin@mercado.bo'',
                   password = ''secreto'', fechaRegistro = ''1/1/2025'' \<rparr>) \<and>
   post_login (server sample_world) \<lparr> req_usuario = ''admin'', req_password = Str ''1234'' \<rparr> =
     \<lparr> status = 401, body = Mensaje ''Credenciales incorrectas'' \<rparr> \<and>
   login_endpoint server_js (server sample_world)
     \<lparr> req_usuario = ''admin'', req_password = Str ''1234'' \<rparr> = None"
  by (simp add: login_endpoint_def start_server_js post_login_def User_findOne_def sample_world_def)

end
